theory Spec2Isabelle
  imports Main "HOL-Library.Word"
begin

unbundle bit_operations_syntax

section \<open>Go's \<open>sync.Map\<close>\<close>

text \<open>
  The reverse proxy keeps its registry in \<open>sync.Map\<close> values.  A \<open>sync.Map\<close> is an
  unordered map; it is represented here by an association list with distinct keys.
  The position of a key in the list is part of the representation only: the one
  operation that exposes an order, \<open>Range\<close>, visits the keys in an order that Go leaves
  unspecified, so \<open>Range\<close> takes the visiting order as a parameter (a function from the
  keys held to the sequence in which they are visited).
\<close>

type_synonym ('k, 'v) syncmap = "('k \<times> 'v) list"

type_synonym 'k range_order = "'k list \<Rightarrow> 'k list"

definition Load :: "'k \<Rightarrow> ('k, 'v) syncmap \<Rightarrow> 'v option" where
  "Load k m = map_of m k"

fun Store :: "'k \<Rightarrow> 'v \<Rightarrow> ('k, 'v) syncmap \<Rightarrow> ('k, 'v) syncmap" where
  "Store k v [] = [(k, v)]"
| "Store k v (p # ps) = (if fst p = k then (k, v) # ps else p # Store k v ps)"

text \<open>\<open>LoadOrStore\<close> returns the value now held under the key and the updated map.\<close>

definition LoadOrStore :: "'k \<Rightarrow> 'v \<Rightarrow> ('k, 'v) syncmap \<Rightarrow> 'v \<times> ('k, 'v) syncmap" where
  "LoadOrStore k v m = (case Load k m of Some a \<Rightarrow> (a, m) | None \<Rightarrow> (v, Store k v m))"

definition Delete :: "'k \<Rightarrow> ('k, 'v) syncmap \<Rightarrow> ('k, 'v) syncmap" where
  "Delete k m = filter (\<lambda>p. fst p \<noteq> k) m"

text \<open>The keys that \<open>Range\<close> hands to its callback, in the order of the visit.\<close>

definition RangeKeys :: "'k range_order \<Rightarrow> ('k, 'v) syncmap \<Rightarrow> 'k list" where
  "RangeKeys rng m = rng (map fst m)"

section \<open>The registry: \<open>Config\<close>, \<open>addBackend\<close>, \<open>removeBackend\<close>, \<open>getNextBackend\<close>\<close>

text \<open>
  Both proxies declare a \<open>Config\<close> struct with the fields \<open>Backends\<close>,
  \<open>BackendIndices\<close> and \<open>Cache\<close>; the L4 proxy adds \<open>TLSTermination\<close>, \<open>CertFile\<close>
  and \<open>KeyFile\<close>, the L7 proxy adds \<open>TLSCertFile\<close> and \<open>TLSKeyFile\<close>.  The registry
  functions have the same body in both programs and are defined once, on the shared
  fields.  A pool is the inner \<open>sync.Map\<close> from backend to the placeholder \<open>true\<close>; the
  Go code reaches it through a pointer and updates it in place, the model writes the
  updated pool back under its selector.
\<close>

record Config =
  Backends :: "(string, (string, bool) syncmap) syncmap"
  BackendIndices :: "(string, int) syncmap"
  Cache :: "(string, string) syncmap"

record L4Config = Config +
  TLSTermination :: bool
  CertFile :: string
  KeyFile :: string

record L7Config = Config +
  TLSCertFile :: string
  TLSKeyFile :: string

datatype go_error =
    NoBackendsAvailable string
  | PanicIndexOutOfRange int nat

definition addBackend :: "'a Config_scheme \<Rightarrow> string \<Rightarrow> string \<Rightarrow> 'a Config_scheme" where
  "addBackend config sni backend =
     (let (backends, m) = LoadOrStore sni [] (Backends config)
      in config\<lparr>Backends := Store sni (Store backend True backends) m\<rparr>)"

definition removeBackend :: "'a Config_scheme \<Rightarrow> string \<Rightarrow> string \<Rightarrow> 'a Config_scheme" where
  "removeBackend config sni backend =
     (case Load sni (Backends config) of
        None \<Rightarrow> config
      | Some backends \<Rightarrow>
          config\<lparr>Backends := Store sni (Delete backend backends) (Backends config)\<rparr>)"

text \<open>
  \<open>getNextBackend\<close> returns the backend or the error, and the configuration it leaves.
  \<open>backendList[index]\<close> panics in Go when the index is outside the slice; the panic is
  the result \<open>PanicIndexOutOfRange index len\<close>, raised after \<open>LoadOrStore\<close> has run and
  before the cursor is stored.  Where the cursor is stored, \<open>index\<close> is not negative, so
  Go's truncating \<open>%\<close> is \<open>mod\<close>.
\<close>

definition getNextBackend ::
  "string range_order \<Rightarrow> 'a Config_scheme \<Rightarrow> string \<Rightarrow> (go_error + string) \<times> 'a Config_scheme" where
  "getNextBackend rng config sni =
     (case Load sni (Backends config) of
        None \<Rightarrow> (Inl (NoBackendsAvailable sni), config)
      | Some backends \<Rightarrow>
          (let backendList = RangeKeys rng backends in
           if length backendList = 0 then (Inl (NoBackendsAvailable sni), config)
           else
             (let (index, indices) = LoadOrStore sni 0 (BackendIndices config);
                  config1 = config\<lparr>BackendIndices := indices\<rparr>
              in if 0 \<le> index \<and> index < int (length backendList)
                 then (Inr (backendList ! nat index),
                       config1\<lparr>BackendIndices :=
                         Store sni ((index + 1) mod int (length backendList)) indices\<rparr>)
                 else (Inl (PanicIndexOutOfRange index (length backendList)), config1))))"

text \<open>A single-threaded caller: \<open>n\<close> successive calls for one selector.\<close>

fun nextCalls ::
  "string range_order \<Rightarrow> 'a Config_scheme \<Rightarrow> string \<Rightarrow> nat \<Rightarrow> (go_error + string) list \<times> 'a Config_scheme" where
  "nextCalls rng config sni 0 = ([], config)"
| "nextCalls rng config sni (Suc n) =
     (let (r, config1) = getNextBackend rng config sni;
          (rs, config2) = nextCalls rng config1 sni n
      in (r # rs, config2))"

definition emptyL4Config :: L4Config where
  "emptyL4Config =
     \<lparr>Backends = [], BackendIndices = [], Cache = [],
      TLSTermination = False, CertFile = ''cert.pem'', KeyFile = ''key.pem''\<rparr>"

definition emptyL7Config :: L7Config where
  "emptyL7Config =
     \<lparr>Backends = [], BackendIndices = [], Cache = [],
      TLSCertFile = ''cert.pem'', TLSKeyFile = ''key.pem''\<rparr>"

section \<open>The SNI parser: \<open>parseTLSClientHello\<close>\<close>

text \<open>
  The input is a Go byte slice.  Reading \<open>data[i]\<close> with \<open>i\<close> at or beyond \<open>len(data)\<close>
  is a run-time panic in Go; the checked read \<open>index\<close> makes the panic a result.  Every
  error that the function returns with \<open>fmt.Errorf\<close> is one constructor, named after
  its message.  The Go string that the function returns is modelled by its bytes.
\<close>

type_synonym byte = "8 word"

datatype parse_error =
    DataTooShort                    \<comment> \<open>data too short for TLS handshake\<close>
  | NotTLSHandshake                 \<comment> \<open>not a TLS handshake\<close>
  | UnsupportedTLSVersion           \<comment> \<open>unsupported TLS version\<close>
  | IncompleteHandshakeRecord       \<comment> \<open>incomplete handshake record\<close>
  | NotClientHello                  \<comment> \<open>not a ClientHello message\<close>
  | InvalidClientHello              \<comment> \<open>invalid ClientHello message\<close>
  | InvalidSessionID                \<comment> \<open>invalid ClientHello session ID\<close>
  | InvalidCipherSuites             \<comment> \<open>invalid ClientHello cipher suites\<close>
  | InvalidCompressionMethods       \<comment> \<open>invalid ClientHello compression methods\<close>
  | ExtensionsLengthExceedsData     \<comment> \<open>extensions length exceeds data size\<close>
  | ExtensionLengthExceedsData      \<comment> \<open>extension length exceeds data size\<close>
  | InvalidSNILength                \<comment> \<open>invalid SNI length\<close>
  | SNINotFound                     \<comment> \<open>SNI not found in ClientHello\<close>
  | PanicIndex nat nat              \<comment> \<open>panic: index out of range [i] with length n\<close>
  | PanicSlice nat nat              \<comment> \<open>panic: slice bounds out of range\<close>

definition index :: "byte list \<Rightarrow> nat \<Rightarrow> parse_error + byte" where
  "index data i = (if i < length data then Inr (data ! i) else Inl (PanicIndex i (length data)))"

text \<open>\<open>int(hi)<<8 | int(lo)\<close> on two bytes.\<close>

definition be16 :: "byte \<Rightarrow> byte \<Rightarrow> nat" where
  "be16 hi lo = push_bit 8 (unat hi) OR unat lo"

text \<open>
  \<open>int(data[i])<<8 | int(data[i+1])\<close>: Go evaluates the operands from left to right,
  so the first read out of range is the one that panics.
\<close>

definition index16 :: "byte list \<Rightarrow> nat \<Rightarrow> parse_error + nat" where
  "index16 data i =
     (case index data i of
        Inl e \<Rightarrow> Inl e
      | Inr hi \<Rightarrow> (case index data (i + 1) of Inl e \<Rightarrow> Inl e | Inr lo \<Rightarrow> Inr (be16 hi lo)))"

text \<open>\<open>data[a:b]\<close>; the parser only slices with \<open>b\<close> at most \<open>len(data)\<close>.\<close>

definition subslice :: "byte list \<Rightarrow> nat \<Rightarrow> nat \<Rightarrow> parse_error + byte list" where
  "subslice data a b =
     (if a \<le> b \<and> b \<le> length data then Inr (take (b - a) (drop a data))
      else Inl (PanicSlice a b))"

text \<open>
  The loop \<open>for offset+4 <= end\<close> over the extensions.  \<open>endOff\<close> is the variable
  \<open>end\<close> of the source.
\<close>

function parseExtensions :: "byte list \<Rightarrow> nat \<Rightarrow> nat \<Rightarrow> parse_error + byte list" where
  "parseExtensions data endOff offset =
     (if offset + 4 \<le> endOff then
        (case index16 data offset of
           Inl e \<Rightarrow> Inl e
         | Inr extType \<Rightarrow>
            (case index16 data (offset + 2) of
               Inl e \<Rightarrow> Inl e
             | Inr extLen \<Rightarrow>
                 if offset + 4 + extLen > endOff then Inl ExtensionLengthExceedsData
                 else if extType = 0 then
                   (case index16 data (offset + 4 + 3) of
                      Inl e \<Rightarrow> Inl e
                    | Inr sniLen \<Rightarrow>
                        if offset + 4 + 5 + sniLen > endOff then Inl InvalidSNILength
                        else subslice data (offset + 4 + 5) (offset + 4 + 5 + sniLen))
                 else parseExtensions data endOff (offset + 4 + extLen)))
      else Inl SNINotFound)"
  by pat_completeness auto
termination
  by (relation "measure (\<lambda>(data, endOff, offset). endOff - offset)") auto

declare parseExtensions.simps [simp del]

definition parseTLSClientHello :: "byte list \<Rightarrow> parse_error + byte list" where
  "parseTLSClientHello data =
     (if length data < 5 then Inl DataTooShort
      else if data ! 0 \<noteq> 0x16 then Inl NotTLSHandshake
      else if data ! 1 \<noteq> 0x03 \<or> (data ! 2 \<noteq> 0x01 \<and> data ! 2 \<noteq> 0x02 \<and> data ! 2 \<noteq> 0x03)
        then Inl UnsupportedTLSVersion
      else
        (let recordLen = be16 (data ! 3) (data ! 4) in
         if length data - 5 < recordLen then Inl IncompleteHandshakeRecord
         else
           (case index data 5 of
              Inl e \<Rightarrow> Inl e
            | Inr handshakeType \<Rightarrow>
               if handshakeType \<noteq> 0x01 then Inl NotClientHello
               else if length data < 43 then Inl InvalidClientHello
               else
                 (case index data 43 of
                    Inl e \<Rightarrow> Inl e
                  | Inr sessionIDLen \<Rightarrow>
                     (let offset1 = 43 + (1 + unat sessionIDLen) in
                      if length data < offset1 then Inl InvalidSessionID
                      else
                        (case index16 data offset1 of
                           Inl e \<Rightarrow> Inl e
                         | Inr cipherSuitesLen \<Rightarrow>
                            (let offset2 = offset1 + (2 + cipherSuitesLen) in
                             if length data < offset2 then Inl InvalidCipherSuites
                             else
                               (case index data offset2 of
                                  Inl e \<Rightarrow> Inl e
                                | Inr compressionMethodsLen \<Rightarrow>
                                   (let offset3 = offset2 + (1 + unat compressionMethodsLen) in
                                    if length data < offset3 then Inl InvalidCompressionMethods
                                    else
                                      (case index16 data offset3 of
                                         Inl e \<Rightarrow> Inl e
                                       | Inr extensionsLen \<Rightarrow>
                                          (let offset4 = offset3 + 2 in
                                           if length data < offset4 + extensionsLen
                                           then Inl ExtensionsLengthExceedsData
                                           else parseExtensions data
                                                  (offset4 + extensionsLen) offset4)))))))))))"

subsection \<open>A ClientHello on the wire\<close>

text \<open>
  The claim about the parser speaks of a valid ClientHello that carries the host name
  \<open>S\<close>.  The layout below is the one of RFC 5246 (record and handshake headers,
  ClientHello body) and RFC 6066 (the \<open>server_name\<close> extension: a two-byte list
  length, then the entries of the list, each a one-byte name type, a two-byte name
  length and the name; name type 0 is \<open>host_name\<close>).  It is the specification side of
  the round trip, written from the standard and not from the parser.  The host name
  that a ClientHello carries is the name of the first entry of type 0.
\<close>

record ClientHello =
  record_minor :: byte
  client_version :: "byte \<times> byte"
  random :: "byte list"
  session_id :: "byte list"
  cipher_suites :: "byte list"
  compression_methods :: "byte list"
  extensions_before :: "(nat \<times> byte list) list"
  server_name_list :: "(nat \<times> byte list) list"
  extensions_after :: "(nat \<times> byte list) list"

definition u8 :: "nat \<Rightarrow> byte list" where
  "u8 n = [of_nat n]"

definition u16 :: "nat \<Rightarrow> byte list" where
  "u16 n = [of_nat (n div 256), of_nat (n mod 256)]"

definition u24 :: "nat \<Rightarrow> byte list" where
  "u24 n = [of_nat (n div 65536), of_nat (n div 256 mod 256), of_nat (n mod 256)]"

definition encodeExtension :: "nat \<times> byte list \<Rightarrow> byte list" where
  "encodeExtension x = u16 (fst x) @ u16 (length (snd x)) @ snd x"

definition encodeServerName :: "nat \<times> byte list \<Rightarrow> byte list" where
  "encodeServerName x = u8 (fst x) @ u16 (length (snd x)) @ snd x"

definition serverNameExtension :: "(nat \<times> byte list) list \<Rightarrow> byte list" where
  "serverNameExtension names =
     encodeExtension
       (0, u16 (length (concat (map encodeServerName names)))
           @ concat (map encodeServerName names))"

definition sniHostName :: "ClientHello \<Rightarrow> byte list option" where
  "sniHostName ch = map_of (server_name_list ch) 0"

definition encodeExtensions :: "ClientHello \<Rightarrow> byte list" where
  "encodeExtensions ch =
     concat (map encodeExtension (extensions_before ch))
     @ serverNameExtension (server_name_list ch)
     @ concat (map encodeExtension (extensions_after ch))"

definition helloBody :: "ClientHello \<Rightarrow> byte list" where
  "helloBody ch =
     [fst (client_version ch), snd (client_version ch)] @ random ch
     @ u8 (length (session_id ch)) @ session_id ch
     @ u16 (length (cipher_suites ch)) @ cipher_suites ch
     @ u8 (length (compression_methods ch)) @ compression_methods ch
     @ u16 (length (encodeExtensions ch)) @ encodeExtensions ch"

definition encodeClientHello :: "ClientHello \<Rightarrow> byte list" where
  "encodeClientHello ch =
     [0x16, 0x03, record_minor ch] @ u16 (4 + length (helloBody ch))
     @ [0x01] @ u24 (length (helloBody ch)) @ helloBody ch"

text \<open>
  Validity: a TLS 1.0, 1.1 or 1.2 record version, a 32-byte random, every length within
  its field, the whole handshake message within one record, no extension of type 0
  before the \<open>server_name\<close> extension, and a \<open>server_name\<close> list of at least one
  entry whose name types fit a byte.
\<close>

definition validExtension :: "nat \<times> byte list \<Rightarrow> bool" where
  "validExtension x \<longleftrightarrow> fst x < 65536 \<and> length (snd x) < 65536"

definition validClientHello :: "ClientHello \<Rightarrow> bool" where
  "validClientHello ch \<longleftrightarrow>
     record_minor ch \<in> {0x01, 0x02, 0x03}
     \<and> length (random ch) = 32
     \<and> length (session_id ch) \<le> 32
     \<and> length (cipher_suites ch) < 65536
     \<and> length (compression_methods ch) < 256
     \<and> list_all (\<lambda>x. validExtension x \<and> fst x \<noteq> 0) (extensions_before ch)
     \<and> list_all validExtension (extensions_after ch)
     \<and> server_name_list ch \<noteq> []
     \<and> list_all (\<lambda>x. fst x < 256) (server_name_list ch)
     \<and> 4 + length (helloBody ch) \<le> 16384"

section \<open>\<open>net/http\<close>: requests and the response writer\<close>

text \<open>
  The handlers talk to Go's \<open>net/http\<close>.  What they use of it is modelled by its
  documented behaviour: a \<open>ResponseWriter\<close> holds the header map, the status (unset
  until the first \<open>WriteHeader\<close> or \<open>Write\<close>; a \<open>Write\<close> before \<open>WriteHeader\<close> sends
  200) and the body written so far; \<open>http.Error\<close> sets two headers, writes the status
  and prints the message followed by a newline.  A header map sends a name to its list
  of values.  Byte slices that carry HTTP bodies are strings (a \<open>char\<close> is a byte).
\<close>

type_synonym header = "string \<rightharpoonup> string list"

record url =
  Path :: string
  RawQuery :: string

record Request =
  Method :: string
  Host :: string
  URL :: url
  Header :: header
  Body :: string

record ResponseWriter =
  w_Header :: header
  w_status :: "nat option"
  w_body :: string

definition WriteHeader :: "ResponseWriter \<Rightarrow> nat \<Rightarrow> ResponseWriter" where
  "WriteHeader w code = (case w_status w of None \<Rightarrow> w\<lparr>w_status := Some code\<rparr> | Some s \<Rightarrow> w)"

definition Write :: "ResponseWriter \<Rightarrow> string \<Rightarrow> ResponseWriter" where
  "Write w b = (WriteHeader w 200)\<lparr>w_body := w_body w @ b\<rparr>"

definition http_Error :: "ResponseWriter \<Rightarrow> string \<Rightarrow> nat \<Rightarrow> ResponseWriter" where
  "http_Error w msg code =
     Write (WriteHeader
              (w\<lparr>w_Header := (w_Header w)
                   (''Content-Type'' \<mapsto> [''text/plain; charset=utf-8''],
                    ''X-Content-Type-Options'' \<mapsto> [''nosniff''])\<rparr>)
              code)
           (msg @ [CHR 0x0A])"

text \<open>
  The two nested loops \<open>for key, values := range resp.Header { for _, value := range
  values { w.Header().Add(key, value) } }\<close>: every name of the source header gets its
  values appended, in their order, to the values the target already has.  Names do not
  interact, so the order in which the outer loop visits them does not show.
\<close>

definition addHeaders :: "header \<Rightarrow> header \<Rightarrow> header" where
  "addHeaders src dst =
     (\<lambda>key. case src key of
               None \<Rightarrow> dst key
             | Some values \<Rightarrow>
                 if values = [] then dst key
                 else Some ((case dst key of None \<Rightarrow> [] | Some old \<Rightarrow> old) @ values))"

text \<open>
  The request built by \<open>http.NewRequest(method, url, body)\<close> followed by
  \<open>req.Header = r.Header\<close>; \<open>u_URL\<close> is the URL string handed to \<open>NewRequest\<close>.
\<close>

record upstream_request =
  u_Method :: string
  u_URL :: string
  u_Header :: header
  u_Body :: string

text \<open>
  The response of the backend: \<open>resp_Body\<close> is what \<open>io.ReadAll(resp.Body)\<close> returns,
  the body or a read error.
\<close>

record upstream_response =
  StatusCode :: nat
  resp_Header :: header
  resp_Body :: "string + string"

text \<open>
  The parts of the library and of the network that the handler calls:
  \<open>r.URL.String()\<close>, whether \<open>http.NewRequest\<close> rejects a method and URL string, and
  \<open>client.Do\<close>, which returns a transport error or the backend's response.
\<close>

record net =
  url_String :: "url \<Rightarrow> string"
  NewRequest_error :: "string \<Rightarrow> string \<Rightarrow> bool"
  client_Do :: "upstream_request \<Rightarrow> string + upstream_response"

section \<open>The L7 forwarder: \<open>handleHTTPRequest\<close> with the cache\<close>

definition getFromCache :: "'a Config_scheme \<Rightarrow> string \<Rightarrow> string option" where
  "getFromCache config key = Load key (Cache config)"

definition storeInCache :: "'a Config_scheme \<Rightarrow> string \<Rightarrow> string \<Rightarrow> 'a Config_scheme" where
  "storeInCache config key data = config\<lparr>Cache := Store key data (Cache config)\<rparr>"

text \<open>\<open>cacheKey := fmt.Sprintf("%s:%s", host, r.URL.String())\<close>\<close>

definition cacheKey :: "net \<Rightarrow> Request \<Rightarrow> string" where
  "cacheKey net r = Host r @ '':'' @ url_String net (URL r)"

text \<open>
  What one run of the handler leaves: the response writer, the requests issued to a
  backend, the configuration, and the panic if the handler did not return.
\<close>

record 'c handled =
  writer :: ResponseWriter
  upstream :: "upstream_request list"
  after :: 'c
  panic :: "go_error option"

definition handleHTTPRequest ::
  "string range_order \<Rightarrow> net \<Rightarrow> ResponseWriter \<Rightarrow> Request \<Rightarrow> 'a Config_scheme
     \<Rightarrow> 'a Config_scheme handled" where
  "handleHTTPRequest rng net w r config =
     (let host = Host r in
      case getFromCache config (cacheKey net r) of
        Some cachedResponse \<Rightarrow>
          \<lparr>writer = Write w cachedResponse, upstream = [], after = config, panic = None\<rparr>
      | None \<Rightarrow>
         (case getNextBackend rng config host of
            (Inl (PanicIndexOutOfRange i n), config1) \<Rightarrow>
              \<lparr>writer = w, upstream = [], after = config1,
               panic = Some (PanicIndexOutOfRange i n)\<rparr>
          | (Inl (NoBackendsAvailable s), config1) \<Rightarrow>
              \<lparr>writer = http_Error w ''No backend available'' 503, upstream = [],
               after = config1, panic = None\<rparr>
          | (Inr backendURL, config1) \<Rightarrow>
              if NewRequest_error net (Method r) (backendURL @ Path (URL r))
              then \<lparr>writer = http_Error w ''Failed to create request'' 500, upstream = [],
                    after = config1, panic = None\<rparr>
              else
                (let req = \<lparr>u_Method = Method r, u_URL = backendURL @ Path (URL r),
                            u_Header = Header r, u_Body = Body r\<rparr>
                 in case client_Do net req of
                      Inl err \<Rightarrow>
                        \<lparr>writer = http_Error w ''Failed to connect to backend'' 502,
                         upstream = [req], after = config1, panic = None\<rparr>
                    | Inr resp \<Rightarrow>
                       (case resp_Body resp of
                          Inl err \<Rightarrow>
                            \<lparr>writer = http_Error w ''Failed to read backend response'' 500,
                             upstream = [req], after = config1, panic = None\<rparr>
                        | Inr body \<Rightarrow>
                            \<lparr>writer =
                               Write (WriteHeader
                                        (w\<lparr>w_Header := addHeaders (resp_Header resp) (w_Header w)\<rparr>)
                                        (StatusCode resp))
                                     body,
                             upstream = [req],
                             after = storeInCache config1 (cacheKey net r) body,
                             panic = None\<rparr>))))"

section \<open>The control plane: the registration handlers\<close>

text \<open>
  The handler registered by \<open>startRegistrationServer\<close> under \<open>/register\<close> (L4 proxy) and
  the one registered by \<open>startBackendRegistrationAPI\<close> under \<open>/register-backend\<close> (L7
  proxy).  \<open>json.NewDecoder(r.Body).Decode(&registration)\<close> belongs to
  \<open>encoding/json\<close> and is the parameter \<open>decode\<close>: \<open>None\<close> is a decoding error,
  otherwise the two fields of the decoded \<open>registration\<close> struct (\<open>Name\<close> and \<open>Address\<close>,
  or \<open>Host\<close> and \<open>Backend\<close>).
\<close>

type_synonym json_decode = "string \<Rightarrow> (string \<times> string) option"

definition registerHandler ::
  "json_decode \<Rightarrow> ResponseWriter \<Rightarrow> Request \<Rightarrow> 'a Config_scheme
     \<Rightarrow> ResponseWriter \<times> 'a Config_scheme" where
  "registerHandler decode w r config =
     (if Method r \<noteq> ''POST'' then (http_Error w ''Invalid request method'' 405, config)
      else
        (case decode (Body r) of
           None \<Rightarrow> (http_Error w ''Invalid JSON payload'' 400, config)
         | Some (name, address) \<Rightarrow>
             if name = [] \<or> address = []
             then (http_Error w ''Name and Address are required'' 400, config)
             else (Write (WriteHeader w 200) (''Backend '' @ name @ '' registered successfully''),
                   addBackend config name address)))"

definition registerBackendHandler ::
  "json_decode \<Rightarrow> ResponseWriter \<Rightarrow> Request \<Rightarrow> 'a Config_scheme
     \<Rightarrow> ResponseWriter \<times> 'a Config_scheme" where
  "registerBackendHandler decode w r config =
     (if Method r \<noteq> ''POST'' then (http_Error w ''Invalid request method'' 405, config)
      else
        (case decode (Body r) of
           None \<Rightarrow> (http_Error w ''Invalid JSON payload'' 400, config)
         | Some (host, backend) \<Rightarrow>
             if host = [] \<or> backend = []
             then (http_Error w ''Host and Backend are required'' 400, config)
             else (Write (WriteHeader w 200)
                     (''Backend '' @ backend @ '' registered successfully for host '' @ host),
                   addBackend config host backend)))"

subsection \<open>\<open>Decoder.Decode\<close> on a flat object\<close>

text \<open>
  What \<open>json.NewDecoder(r.Body).Decode(&registration)\<close> does, by the documentation of
  \<open>encoding/json\<close>, on the bodies a registering backend sends.  \<open>Decode\<close> reads the
  next JSON value of the stream and nothing after it: white space is skipped, an object
  ends at its closing brace, and the bytes that follow are left unread.  A syntax error
  in the value, or the end of the input before the value is complete, is an error.  The
  members of the object are stored into the struct in their order: a key selects the
  field whose tag it equals, letters compared without regard to case, a later member
  overwrites an earlier one, a key that selects no field is skipped, and a field that
  no key selects keeps the empty string.

  \<open>flatObject\<close> scans the body byte by byte as far as it begins with an object whose
  keys and values are strings of printable ASCII without escapes.  It returns
  \<open>Members\<close> with the members and the bytes after the closing brace; \<open>Malformed\<close> where
  the scan meets a byte that no JSON value admits at that place, or the end of the
  input; and \<open>NotFlat\<close> where the body leaves the objects described (another kind of
  value, an escape, a byte outside ASCII).  \<open>jsonDecode\<close> is \<open>Decode\<close> into a struct
  with two string fields of the given tags; what \<open>Decode\<close> answers to a body that is
  \<open>NotFlat\<close> is the parameter \<open>otherwise\<close>.
\<close>

definition jsonSpace :: "char \<Rightarrow> bool" where
  "jsonSpace c \<longleftrightarrow> c = CHR '' '' \<or> c = CHR 0x09 \<or> c = CHR 0x0D \<or> c = CHR 0x0A"

text \<open>A byte of a string that is neither the closing quote nor the start of an escape.\<close>

definition plainChar :: "char \<Rightarrow> bool" where
  "plainChar c \<longleftrightarrow>
     c \<noteq> CHR 0x22 \<and> c \<noteq> CHR 0x5C \<and> 0x20 \<le> (of_char c :: nat) \<and> (of_char c :: nat) < 0x80"

text \<open>
  The bytes with which a JSON value begins: a brace, a bracket, a quote, a minus sign, a
  digit, and the first letters of \<open>true\<close>, \<open>false\<close> and \<open>null\<close>.
\<close>

definition beginsValue :: "char \<Rightarrow> bool" where
  "beginsValue c \<longleftrightarrow>
     c = CHR 0x7B \<or> c = CHR 0x5B \<or> c = CHR 0x22 \<or> c = CHR 0x2D
     \<or> (0x30 \<le> (of_char c :: nat) \<and> (of_char c :: nat) \<le> 0x39)
     \<or> c = CHR ''t'' \<or> c = CHR ''f'' \<or> c = CHR ''n''"

datatype flat_state =
    BeginValue                  \<comment> \<open>before the value: white space, then the opening brace\<close>
  | BeginKeyOrEnd               \<comment> \<open>after the opening brace: a key or the closing brace\<close>
  | InKey string                \<comment> \<open>inside a key\<close>
  | AfterKey string             \<comment> \<open>after a key: the colon\<close>
  | BeginString string          \<comment> \<open>after the colon: the opening quote of the value\<close>
  | InString string string      \<comment> \<open>inside the value of a key\<close>
  | AfterMember                 \<comment> \<open>after a member: a comma or the closing brace\<close>
  | BeginKey                    \<comment> \<open>after a comma: the opening quote of a key\<close>

datatype scanned =
    Members "(string \<times> string) list" string
  | Malformed
  | NotFlat

fun flatObject :: "flat_state \<Rightarrow> (string \<times> string) list \<Rightarrow> string \<Rightarrow> scanned" where
  "flatObject st ms [] = Malformed"
| "flatObject BeginValue ms (c # cs) =
     (if jsonSpace c then flatObject BeginValue ms cs
      else if c = CHR 0x7B then flatObject BeginKeyOrEnd ms cs
      else if beginsValue c then NotFlat
      else Malformed)"
| "flatObject BeginKeyOrEnd ms (c # cs) =
     (if jsonSpace c then flatObject BeginKeyOrEnd ms cs
      else if c = CHR 0x22 then flatObject (InKey []) ms cs
      else if c = CHR 0x7D then Members ms cs
      else Malformed)"
| "flatObject (InKey k) ms (c # cs) =
     (if c = CHR 0x22 then flatObject (AfterKey k) ms cs
      else if plainChar c then flatObject (InKey (k @ [c])) ms cs
      else if (of_char c :: nat) < 0x20 then Malformed
      else NotFlat)"
| "flatObject (AfterKey k) ms (c # cs) =
     (if jsonSpace c then flatObject (AfterKey k) ms cs
      else if c = CHR 0x3A then flatObject (BeginString k) ms cs
      else Malformed)"
| "flatObject (BeginString k) ms (c # cs) =
     (if jsonSpace c then flatObject (BeginString k) ms cs
      else if c = CHR 0x22 then flatObject (InString k []) ms cs
      else if beginsValue c then NotFlat
      else Malformed)"
| "flatObject (InString k v) ms (c # cs) =
     (if c = CHR 0x22 then flatObject AfterMember (ms @ [(k, v)]) cs
      else if plainChar c then flatObject (InString k (v @ [c])) ms cs
      else if (of_char c :: nat) < 0x20 then Malformed
      else NotFlat)"
| "flatObject AfterMember ms (c # cs) =
     (if jsonSpace c then flatObject AfterMember ms cs
      else if c = CHR 0x2C then flatObject BeginKey ms cs
      else if c = CHR 0x7D then Members ms cs
      else Malformed)"
| "flatObject BeginKey ms (c # cs) =
     (if jsonSpace c then flatObject BeginKey ms cs
      else if c = CHR 0x22 then flatObject (InKey []) ms cs
      else Malformed)"

text \<open>
  A byte of a key matches a byte of a tag when they are equal, or when the tag byte is
  a lower-case letter and the key byte is its upper case.  The tags of the two structs
  (\<open>name\<close>, \<open>address\<close>, \<open>host\<close>, \<open>backend\<close>) are lower-case letters throughout.
\<close>

definition foldEq :: "char \<Rightarrow> char \<Rightarrow> bool" where
  "foldEq tagc keyc \<longleftrightarrow>
     keyc = tagc
     \<or> (0x61 \<le> (of_char tagc :: nat) \<and> (of_char tagc :: nat) \<le> 0x7A
         \<and> (of_char keyc :: nat) + 0x20 = of_char tagc)"

definition keySelects :: "string \<Rightarrow> string \<Rightarrow> bool" where
  "keySelects tag key \<longleftrightarrow> list_all2 foldEq tag key"

definition fieldOf :: "string \<Rightarrow> (string \<times> string) list \<Rightarrow> string" where
  "fieldOf tag ms = foldl (\<lambda>field m. if keySelects tag (fst m) then snd m else field) [] ms"

definition jsonDecode :: "string \<Rightarrow> string \<Rightarrow> json_decode \<Rightarrow> json_decode" where
  "jsonDecode tag1 tag2 otherwise body =
     (case flatObject BeginValue [] body of
        Members ms rest \<Rightarrow> Some (fieldOf tag1 ms, fieldOf tag2 ms)
      | Malformed \<Rightarrow> None
      | NotFlat \<Rightarrow> otherwise body)"

text \<open>
  The cursor of a selector as a number: the index stored in \<open>BackendIndices\<close>, and 0
  when none is stored yet (\<open>LoadOrStore(sni, 0)\<close> then yields 0).
\<close>

definition cursor_at :: "'a Config_scheme \<Rightarrow> string \<Rightarrow> nat \<Rightarrow> bool" where
  "cursor_at config sni c =
     (case Load sni (BackendIndices config) of None \<Rightarrow> c = 0 | Some i \<Rightarrow> i = int c)"

section \<open>Concrete inputs\<close>

text \<open>The inputs at which the theorems below are evaluated.\<close>

text \<open>A \<open>Range\<close> that visits the keys in the order in which they were first stored.\<close>

definition asInserted :: "string range_order" where
  "asInserted keys = keys"

definition registryABC :: L4Config where
  "registryABC =
     addBackend (addBackend (addBackend emptyL4Config ''h'' ''A'') ''h'' ''B'') ''h'' ''C''"

definition helloExample :: ClientHello where
  "helloExample =
     \<lparr>record_minor = 0x01, client_version = (0x03, 0x03), random = replicate 32 0x07,
      session_id = [], cipher_suites = [0x13, 0x01], compression_methods = [0x00],
      extensions_before = [(10, [0x00, 0x02, 0x00, 0x17])],
      server_name_list = [(0, [0x61, 0x2E, 0x62])],
      extensions_after = [(11, [0x01, 0x00])]\<rparr>"

text \<open>
  The same ClientHello with a \<open>server_name\<close> list of two entries: a name \<open>x\<close> of name
  type 1, then the host name \<open>a.b\<close>.
\<close>

definition helloTwoNames :: ClientHello where
  "helloTwoNames =
     helloExample\<lparr>server_name_list := [(1, [0x78]), (0, [0x61, 0x2E, 0x62])]\<rparr>"

text \<open>
  Two inputs of 253 bytes, the size that \<open>extractSNI\<close> peeks.  The first announces a
  session ID of 209 bytes, which ends exactly at the end of the input.  The second
  carries a \<open>server_name\<close> extension of length 0 as its last four bytes.
\<close>

definition sessionIDToTheEnd :: "byte list" where
  "sessionIDToTheEnd =
     [0x16, 0x03, 0x01, 0x00, 0xF8, 0x01] @ replicate 37 0x00 @ [0xD1] @ replicate 209 0x00"

definition emptyServerNameLast :: "byte list" where
  "emptyServerNameLast =
     [0x16, 0x03, 0x01, 0x00, 0xF8, 0x01] @ replicate 37 0x00 @ [0x00]
     @ [0x00, 0xC8] @ replicate 200 0x00 @ [0x00] @ [0x00, 0x04] @ [0x00, 0x00, 0x00, 0x00]"

definition freshWriter :: ResponseWriter where
  "freshWriter = \<lparr>w_Header = Map.empty, w_status = None, w_body = []\<rparr>"

text \<open>
  A network in which \<open>URL.String\<close> prints the path and, after \<open>?\<close>, the query,
  \<open>NewRequest\<close> accepts everything and the backend answers 200 with the body \<open>v1\<close>;
  and one in which the connection to the backend fails.
\<close>

definition exampleNet :: net where
  "exampleNet =
     \<lparr>url_String = (\<lambda>u. Path u @ (if RawQuery u = [] then [] else ''?'' @ RawQuery u)),
      NewRequest_error = (\<lambda>method target. False),
      client_Do = (\<lambda>req. Inr \<lparr>StatusCode = 200, resp_Header = Map.empty,
                                resp_Body = Inr ''v1''\<rparr>)\<rparr>"


definition apiConfig :: L7Config where
  "apiConfig = addBackend emptyL7Config ''api.test'' ''http://127.0.0.1:9100''"

definition getX :: Request where
  "getX = \<lparr>Method = ''GET'', Host = ''api.test'', URL = \<lparr>Path = ''/x'', RawQuery = []\<rparr>,
           Header = Map.empty, Body = []\<rparr>"

definition postX :: Request where
  "postX = getX\<lparr>Method := ''POST'', Body := ''payload''\<rparr>"

definition getXQuery :: Request where
  "getXQuery = getX\<lparr>URL := \<lparr>Path = ''/x'', RawQuery = ''y=1''\<rparr>\<rparr>"

text \<open>
  Registration bodies: one with an empty name, a complete one, and a complete one
  followed by bytes that are not white space, and one that breaks off inside the name.
  For the bodies that are \<open>NotFlat\<close> the examples take a \<open>Decode\<close> that fails; no
  body below is one of them.
\<close>

definition emptyNameBody :: string where
  \<open>emptyNameBody = ''{"name":"","address":"1.2.3.4:80"}''\<close>

definition goodBody :: string where
  \<open>goodBody = ''{"name":"svc.test","address":"127.0.0.1:9001"}''\<close>

definition trailingBytesBody :: string where
  \<open>trailingBytesBody = ''{"name":"t","address":"u"} xyz''\<close>

definition truncatedBody :: string where
  \<open>truncatedBody = ''{"name":"svc''\<close>

definition otherBodiesFail :: json_decode where
  "otherBodiesFail body = None"

definition exampleDecode :: json_decode where
  "exampleDecode = jsonDecode ''name'' ''address'' otherBodiesFail"

section \<open>Properties of the registry\<close>

lemma asInserted_apply [simp]: "asInserted keys = keys"
  by (simp add: asInserted_def)

lemma Store_Store: "Store k v (Store k w m) = Store k v m"
  by (induction m) auto

lemma Load_Store_same: "Load k (Store k v m) = Some v"
  by (induction m) (auto simp: Load_def)

lemma Load_Store_other: "k' \<noteq> k \<Longrightarrow> Load k' (Store k v m) = Load k' m"
  by (induction m) (auto simp: Load_def)

lemma addBackend_twice: "addBackend (addBackend config sni backend) sni backend = addBackend config sni backend"
  by (cases "Load sni (Backends config)")
     (simp_all add: addBackend_def LoadOrStore_def Load_Store_same Store_Store)

lemma addBackend_absent:
  "Load sni (Backends config) = None \<Longrightarrow>
   Load sni (Backends (addBackend config sni backend)) = Some [(backend, True)]"
  by (simp add: addBackend_def LoadOrStore_def Load_Store_same Store_Store)


text \<open>
  Claim C9.  Registration is idempotent: calling \<open>addBackend\<close> twice with the same
  selector and backend leaves the configuration that one call leaves; registering the
  same pair twice for a selector that had no pool yields a pool of size 1, holding that
  backend; and registering for an absent selector creates its pool.
\<close>

theorem addBackend_idempotent:
  "addBackend (addBackend config sni backend) sni backend = addBackend config sni backend
   \<and> (Load sni (Backends config) = None \<longrightarrow>
        Load sni (Backends (addBackend config sni backend)) = Some [(backend, True)]
        \<and> Load sni (Backends (addBackend (addBackend config sni backend) sni backend))
            = Some [(backend, True)])"
  by (simp add: addBackend_twice addBackend_absent)

text \<open>The theorem at the empty L4 configuration, selector \<open>h\<close> and backend \<open>A\<close>.\<close>

theorem addBackend_idempotent_witness:
  "Load ''h'' (Backends emptyL4Config) = None
   \<and> Load ''h'' (Backends (addBackend (addBackend emptyL4Config ''h'' ''A'') ''h'' ''A''))
       = Some [(''A'', True)]
   \<and> length [(''A'', True)] = 1"
proof -
  have a: "Load ''h'' (Backends emptyL4Config) = None"
    by (simp add: emptyL4Config_def Load_def)
  from addBackend_idempotent [of emptyL4Config "''h''" "''A''"] a
  show ?thesis by simp
qed

lemma getNextBackend_step:
  assumes "Load sni (Backends config) = Some pool"
    and "cursor_at config sni c" and "c < length (RangeKeys rng pool)"
  shows "fst (getNextBackend rng config sni) = Inr (RangeKeys rng pool ! c)"
    and "Backends (snd (getNextBackend rng config sni)) = Backends config"
    and "cursor_at (snd (getNextBackend rng config sni)) sni (Suc c mod length (RangeKeys rng pool))"
  using assms
  by (auto simp: getNextBackend_def cursor_at_def LoadOrStore_def Load_Store_same Let_def
        zmod_int ac_simps split: option.splits)

lemma nextCalls_cycle:
  assumes "Load sni (Backends config) = Some pool"
    and "cursor_at config sni c" and "c < length (RangeKeys rng pool)"
  shows "fst (nextCalls rng config sni m) =
         map (\<lambda>i. Inr (RangeKeys rng pool ! ((c + i) mod length (RangeKeys rng pool)))) [0..<m]"
  using assms
proof (induction m arbitrary: config c)
  case 0
  then show ?case by simp
next
  case (Suc m)
  let ?xs = "RangeKeys rng pool"
  let ?c1 = "Suc c mod length ?xs"
  obtain r config1 where g: "getNextBackend rng config sni = (r, config1)"
    by (cases "getNextBackend rng config sni")
  from getNextBackend_step [OF Suc.prems] g
  have r: "r = Inr (?xs ! c)" and b: "Load sni (Backends config1) = Some pool"
    and cu: "cursor_at config1 sni ?c1"
    using Suc.prems(1) by simp_all
  have lt: "?c1 < length ?xs" using Suc.prems(3) by (intro mod_less_divisor) auto
  have tl: "fst (nextCalls rng config1 sni m) =
      map (\<lambda>i. Inr (?xs ! ((?c1 + i) mod length ?xs))) [0..<m]"
    by (rule Suc.IH [OF b cu lt])
  have idx: "\<And>i. (?c1 + i) mod length ?xs = (c + Suc i) mod length ?xs"
    by (simp add: mod_add_left_eq)
  obtain rs config2 where n: "nextCalls rng config1 sni m = (rs, config2)"
    by (cases "nextCalls rng config1 sni m")
  have upt: "[0..<Suc m] = 0 # map Suc [0..<m]"
    by (simp add: upt_conv_Cons map_Suc_upt del: upt_Suc)
  have "fst (nextCalls rng config sni (Suc m)) = r # rs"
    using g n by simp
  also have "rs = map (\<lambda>i. Inr (?xs ! ((c + Suc i) mod length ?xs))) [0..<m]"
    using tl n by (simp add: idx)
  finally show ?case
    unfolding upt using r Suc.prems(3) by (simp add: o_def)
qed

lemma period_block:
  assumes "c < length xs"
  shows "map (\<lambda>i. xs ! ((c + (k * length xs + i)) mod length xs)) [0..<length xs] = rotate c xs"
proof (rule nth_equalityI)
  show "length (map (\<lambda>i. xs ! ((c + (k * length xs + i)) mod length xs)) [0..<length xs]) =
        length (rotate c xs)" by simp
next
  fix i assume "i < length (map (\<lambda>i. xs ! ((c + (k * length xs + i)) mod length xs)) [0..<length xs])"
  then have i: "i < length xs" by simp
  have "c + (k * length xs + i) = (c + i) + k * length xs" by simp
  then have "(c + (k * length xs + i)) mod length xs = (c + i) mod length xs"
    by (simp only: mod_mult_self1)
  then show "map (\<lambda>i. xs ! ((c + (k * length xs + i)) mod length xs)) [0..<length xs] ! i =
        rotate c xs ! i"
    using i by (simp add: nth_rotate)
qed

lemma count_list_distinct: "distinct ys \<Longrightarrow> b \<in> set ys \<Longrightarrow> count_list ys b = 1"
  by (induction ys) auto

lemma count_cycle:
  assumes "distinct xs" and "b \<in> set xs" and "c < length xs"
  shows "count_list (map (\<lambda>i. (Inr (xs ! ((c + i) mod length xs)) :: 'e + 'a)) [0..<k * length xs]) (Inr b) = k"
proof (induction k)
  case 0
  then show ?case by simp
next
  case (Suc k)
  let ?n = "length xs"
  let ?f = "\<lambda>i. (Inr (xs ! ((c + i) mod ?n)) :: 'e + 'a)"
  have split: "[0..<Suc k * ?n] = [0..<k * ?n] @ map (\<lambda>i. k * ?n + i) [0..<?n]"
    using upt_add_eq_append [of 0 "k * ?n" ?n] by (simp add: map_add_upt add.commute)
  have blk: "map ?f (map (\<lambda>i. k * ?n + i) [0..<?n]) = map Inr (rotate c xs)"
  proof -
    have "map ?f (map (\<lambda>i. k * ?n + i) [0..<?n]) =
          map Inr (map (\<lambda>i. xs ! ((c + (k * ?n + i)) mod ?n)) [0..<?n])"
      by (simp add: o_def)
    then show ?thesis by (simp only: period_block [OF assms(3)])
  qed
  have inj: "\<And>ys. count_list (map Inr ys :: ('e + 'a) list) (Inr b) = count_list ys b"
    subgoal for ys by (induction ys) auto
    done
  have one: "count_list (rotate c xs) b = 1"
    using assms(1,2) by (intro count_list_distinct) simp_all
  show ?case
    unfolding split map_append count_list_append blk inj one using Suc by simp
qed


text \<open>
  Claim C1, as the code has it.  The pool is a \<open>sync.Map\<close>, and \<open>getNextBackend\<close>
  builds its list with \<open>Range\<close>, whose order Go does not specify; insertion order is
  kept nowhere.  What holds: if \<open>Range\<close> visits the pool in one and the same order
  \<open>xs\<close> at every call, without repetition, and the cursor is within \<open>xs\<close> (or not
  stored yet, which counts as 0), then \<open>m\<close> successive calls for the selector return
  \<open>xs\<close> cyclically from the cursor on, with period \<open>length xs\<close>, and over
  \<open>k * length xs\<close> calls every backend of \<open>xs\<close> is returned exactly \<open>k\<close> times.
\<close>

theorem getNextBackend_round_robin:
  assumes "Load sni (Backends config) = Some pool"
    and "cursor_at config sni c"
    and "c < length (RangeKeys rng pool)"
    and "distinct (RangeKeys rng pool)"
  shows "fst (nextCalls rng config sni m) =
           map (\<lambda>i. Inr (RangeKeys rng pool ! ((c + i) mod length (RangeKeys rng pool)))) [0..<m]
         \<and> (\<forall>b \<in> set (RangeKeys rng pool).
              count_list (fst (nextCalls rng config sni (k * length (RangeKeys rng pool)))) (Inr b) = k)"
proof (intro conjI ballI)
  show "fst (nextCalls rng config sni m) =
           map (\<lambda>i. Inr (RangeKeys rng pool ! ((c + i) mod length (RangeKeys rng pool)))) [0..<m]"
    by (rule nextCalls_cycle [OF assms(1-3)])
next
  fix b assume b: "b \<in> set (RangeKeys rng pool)"
  show "count_list (fst (nextCalls rng config sni (k * length (RangeKeys rng pool)))) (Inr b) = k"
    unfolding nextCalls_cycle [OF assms(1-3)]
    by (rule count_cycle [OF assms(4) b assms(3)])
qed

text \<open>
  The theorem at the registry that holds \<open>A\<close>, \<open>B\<close>, \<open>C\<close> for the selector \<open>h\<close>, with a
  \<open>Range\<close> that happens to visit the keys as they were inserted: four calls return
  \<open>A\<close>, \<open>B\<close>, \<open>C\<close>, \<open>A\<close>, and six calls return \<open>B\<close> twice.
\<close>

theorem getNextBackend_round_robin_witness:
  "Load ''h'' (Backends registryABC) = Some [(''A'', True), (''B'', True), (''C'', True)]
   \<and> cursor_at registryABC ''h'' 0
   \<and> fst (nextCalls asInserted registryABC ''h'' 4) = [Inr ''A'', Inr ''B'', Inr ''C'', Inr ''A'']
   \<and> count_list (fst (nextCalls asInserted registryABC ''h'' 6)) (Inr ''B'') = 2"
proof -
  let ?pool = "[(''A'', True), (''B'', True), (''C'', True)]"
  have l: "Load ''h'' (Backends registryABC) = Some ?pool"
    by (simp add: registryABC_def addBackend_def emptyL4Config_def LoadOrStore_def Load_def)
  have c: "cursor_at registryABC ''h'' 0"
    by (simp add: cursor_at_def registryABC_def addBackend_def emptyL4Config_def
        LoadOrStore_def Load_def)
  have r: "RangeKeys asInserted ?pool = [''A'', ''B'', ''C'']"
    by (simp add: RangeKeys_def)
  have n: "0 < length (RangeKeys asInserted ?pool)" and d: "distinct (RangeKeys asInserted ?pool)"
    by (simp_all add: r)
  have u: "[0..<4] = [0, 1, 2, 3]"
    by (simp add: upt_rec)
  from getNextBackend_round_robin [OF l c n d, of 4 2]
  have "fst (nextCalls asInserted registryABC ''h'' 4) = [Inr ''A'', Inr ''B'', Inr ''C'', Inr ''A'']"
    and "count_list (fst (nextCalls asInserted registryABC ''h'' 6)) (Inr ''B'') = 2"
    by (simp_all add: r u)
  with l c show ?thesis by simp
qed

text \<open>
  Claim C1 as stated fails: after registering \<open>A\<close>, \<open>B\<close>, \<open>C\<close> in that order, a
  \<open>Range\<close> that visits the keys as \<open>B\<close>, \<open>C\<close>, \<open>A\<close> makes four successive calls return
  \<open>B\<close>, \<open>C\<close>, \<open>A\<close>, \<open>B\<close>.
\<close>

theorem getNextBackend_insertion_order_counterexample:
  "fst (nextCalls rotate1 registryABC ''h'' 4) = [Inr ''B'', Inr ''C'', Inr ''A'', Inr ''B'']
   \<and> fst (nextCalls rotate1 registryABC ''h'' 4) \<noteq> [Inr ''A'', Inr ''B'', Inr ''C'', Inr ''A'']"
  by (simp add: registryABC_def addBackend_def emptyL4Config_def LoadOrStore_def Load_def
      getNextBackend_def RangeKeys_def eval_nat_numeral)

text \<open>
  Claim C2 fails on the code.  \<open>removeBackend\<close> deletes the backend from the pool and
  leaves \<open>BackendIndices\<close> as it is.  With \<open>A\<close>, \<open>B\<close>, \<open>C\<close> registered for \<open>h\<close>, two
  calls of \<open>getNextBackend\<close> leave the cursor 2; after \<open>removeBackend\<close> of \<open>C\<close> the next
  call reads \<open>backendList[2]\<close> in a list of length 2 and panics.
\<close>

theorem removeBackend_leaves_stale_cursor:
  "Load ''h'' (BackendIndices (snd (nextCalls asInserted registryABC ''h'' 2))) = Some 2
   \<and> fst (getNextBackend asInserted
            (removeBackend (snd (nextCalls asInserted registryABC ''h'' 2)) ''h'' ''C'') ''h'')
       = Inl (PanicIndexOutOfRange 2 2)"
  by (simp add: registryABC_def addBackend_def removeBackend_def emptyL4Config_def
      LoadOrStore_def Load_def Delete_def getNextBackend_def RangeKeys_def eval_nat_numeral)

section \<open>Properties of the SNI parser\<close>

lemma be16_arith: "be16 hi lo = 256 * unat hi + unat lo"
proof -
  have lt: "unat lo < 2 ^ 8" using unsigned_less [of lo] by simp
  have "push_bit 8 (unat hi) AND take_bit 8 (unat lo) = 0"
    by (auto simp add: bit_eq_iff bit_simps)
  then have "push_bit 8 (unat hi) AND unat lo = 0"
    using lt by (simp add: take_bit_nat_eq_self)
  then have "push_bit 8 (unat hi) OR unat lo = push_bit 8 (unat hi) + unat lo"
    by (rule disjunctive_add_eq_or [symmetric])
  then show ?thesis by (simp add: be16_def push_bit_eq_mult)
qed

lemma unat_byte: "n < 256 \<Longrightarrow> unat (of_nat n :: byte) = n"
  by (simp add: unat_of_nat)

lemma be16_u16: "n < 65536 \<Longrightarrow> be16 (of_nat (n div 256)) (of_nat (n mod 256)) = n"
  by (simp add: be16_arith unat_byte)

lemma index_at: "i = length pre \<Longrightarrow> index (pre @ x # rest) i = Inr x"
  by (simp add: index_def)

lemma index16_at:
  "i = length pre \<Longrightarrow> n < 65536 \<Longrightarrow> index16 (pre @ u16 n @ rest) i = Inr n"
  by (simp add: index16_def index_def u16_def nth_append be16_u16)

lemma slice_at:
  "a = length pre \<Longrightarrow> b = length pre + length S \<Longrightarrow> subslice (pre @ S @ rest) a b = Inr S"
  by (simp add: subslice_def)

lemma length_u16: "length (u16 n) = 2"
  by (simp add: u16_def)

lemma length_encodeExtension: "length (encodeExtension x) = 4 + length (snd x)"
  by (simp add: encodeExtension_def length_u16)

lemma length_serverNameExtension:
  "length (serverNameExtension ((t, S) # others)) =
     9 + length S + length (concat (map encodeServerName others))"
  by (simp add: serverNameExtension_def length_encodeExtension length_u16 encodeServerName_def
      u8_def)

lemma serverNameExtension_bytes:
  "serverNameExtension ((t, S) # others) =
     u16 0 @ u16 (5 + length S + length (concat (map encodeServerName others)))
     @ u16 (3 + length S + length (concat (map encodeServerName others)))
     @ [of_nat t] @ u16 (length S) @ S @ concat (map encodeServerName others)"
proof -
  let ?M = "concat (map encodeServerName others)"
  have c: "concat (map encodeServerName ((t, S) # others)) = [of_nat t] @ u16 (length S) @ S @ ?M"
    by (simp add: encodeServerName_def u8_def)
  have n: "length ([of_nat t :: byte] @ u16 (length S) @ S @ ?M) = 3 + length S + length ?M"
    by (simp add: length_u16)
  have "length (u16 (3 + length S + length ?M) @ [of_nat t :: byte] @ u16 (length S) @ S @ ?M)
      = 5 + length S + length ?M"
    by (simp add: length_u16)
  then show ?thesis
    by (simp only: serverNameExtension_def encodeExtension_def fst_conv snd_conv append_assoc c n)
qed

lemma parseExtensions_server_name:
  assumes "5 + length S + length (concat (map encodeServerName others)) < 65536"
    and "length pre + length (serverNameExtension ((t, S) # others)) \<le> endOff"
  shows "parseExtensions (pre @ serverNameExtension ((t, S) # others) @ rest) endOff (length pre)
           = Inr S"
proof -
  define M where "M = concat (map encodeServerName others)"
  define data where "data = pre @ serverNameExtension ((t, S) # others) @ rest"
  let ?o = "length pre"
  let ?x = "5 + length S + length M"
  let ?l = "3 + length S + length M"
  have d0: "data = pre @ u16 0 @ (u16 ?x @ u16 ?l @ [of_nat t] @ u16 (length S) @ S @ M @ rest)"
    by (simp add: data_def serverNameExtension_bytes M_def)
  have d2: "data = (pre @ u16 0) @ u16 ?x @ (u16 ?l @ [of_nat t] @ u16 (length S) @ S @ M @ rest)"
    by (simp add: data_def serverNameExtension_bytes M_def)
  have d7: "data = (pre @ u16 0 @ u16 ?x @ u16 ?l @ [of_nat t]) @ u16 (length S) @ (S @ M @ rest)"
    by (simp add: data_def serverNameExtension_bytes M_def)
  have d9: "data = (pre @ u16 0 @ u16 ?x @ u16 ?l @ [of_nat t] @ u16 (length S)) @ S @ (M @ rest)"
    by (simp add: data_def serverNameExtension_bytes M_def)
  have t: "index16 data ?o = Inr 0"
    by (subst d0, rule index16_at) simp_all
  have l: "index16 data (?o + 2) = Inr ?x"
    using assms(1) by (subst d2, intro index16_at) (simp_all add: length_u16 M_def)
  have s: "index16 data (?o + 4 + 3) = Inr (length S)"
    using assms(1) by (subst d7, intro index16_at) (simp_all add: length_u16)
  have sl: "subslice data (?o + 4 + 5) (?o + 4 + 5 + length S) = Inr S"
    by (subst d9, intro slice_at) (simp_all add: length_u16)
  have e: "?o + 4 + 5 + length S \<le> endOff" "?o + 4 \<le> endOff" "?o + 4 + ?x \<le> endOff"
    using assms(2) by (simp_all add: length_serverNameExtension M_def)
  have "parseExtensions data endOff ?o = Inr S"
    by (subst parseExtensions.simps)
       (simp only: t l s sl e if_True if_False sum.case not_le [symmetric] simp_thms)
  then show ?thesis by (simp only: data_def)
qed

lemma parseExtensions_skip:
  assumes "list_all (\<lambda>x. validExtension x \<and> fst x \<noteq> 0) before"
    and "5 + length S + length (concat (map encodeServerName others)) < 65536"
    and "length pre + length (concat (map encodeExtension before))
           + length (serverNameExtension ((t, S) # others)) \<le> endOff"
  shows "parseExtensions (pre @ concat (map encodeExtension before) @ serverNameExtension ((t, S) # others) @ rest)
           endOff (length pre) = Inr S"
  using assms
proof (induction before arbitrary: pre)
  case Nil
  then show ?case by (simp add: parseExtensions_server_name)
next
  case (Cons x xs)
  define tail where "tail = concat (map encodeExtension xs) @ serverNameExtension ((t, S) # others) @ rest"
  define data where "data = pre @ concat (map encodeExtension (x # xs)) @ serverNameExtension ((t, S) # others) @ rest"
  let ?o = "length pre"
  from Cons.prems(1) have vx: "fst x < 65536" "length (snd x) < 65536" "fst x \<noteq> 0"
    and vxs: "list_all (\<lambda>x. validExtension x \<and> fst x \<noteq> 0) xs"
    by (simp_all add: validExtension_def)
  have d0: "data = pre @ u16 (fst x) @ (u16 (length (snd x)) @ snd x @ tail)"
    by (simp add: data_def tail_def encodeExtension_def)
  have d2: "data = (pre @ u16 (fst x)) @ u16 (length (snd x)) @ (snd x @ tail)"
    by (simp add: data_def tail_def encodeExtension_def)
  have dn: "data = (pre @ encodeExtension x) @ tail"
    by (simp add: data_def tail_def)
  have t: "index16 data ?o = Inr (fst x)"
    using vx(1) by (subst d0, intro index16_at) simp_all
  have l: "index16 data (?o + 2) = Inr (length (snd x))"
    using vx(2) by (subst d2, intro index16_at) (simp_all add: length_u16)
  have e: "?o + 4 + length (snd x) \<le> endOff" "?o + 4 \<le> endOff"
    using Cons.prems(3) by (simp_all add: length_encodeExtension)
  have "length (pre @ encodeExtension x) + length (concat (map encodeExtension xs))
          + length (serverNameExtension ((t, S) # others)) \<le> endOff"
    using Cons.prems(3) by simp
  from Cons.IH [OF vxs Cons.prems(2) this]
  have ih: "parseExtensions data endOff (?o + 4 + length (snd x)) = Inr S"
    by (simp only: dn tail_def length_append length_encodeExtension add.assoc)
  have "parseExtensions data endOff ?o = Inr S"
    by (subst parseExtensions.simps)
       (simp only: t l ih e vx(3) if_True if_False sum.case not_le [symmetric] simp_thms)
  then show ?case by (simp only: data_def)
qed


lemma length_u24: "length (u24 n) = 3"
  by (simp add: u24_def)

lemma length_u8: "length (u8 n) = 1"
  by (simp add: u8_def)

lemma length_encodeExtensions:
  "length (encodeExtensions ch) =
     length (concat (map encodeExtension (extensions_before ch)))
     + length (serverNameExtension (server_name_list ch))
     + length (concat (map encodeExtension (extensions_after ch)))"
  by (simp add: encodeExtensions_def)

lemma length_helloBody:
  "length (helloBody ch) =
     8 + length (random ch) + length (session_id ch) + length (cipher_suites ch)
     + length (compression_methods ch) + length (encodeExtensions ch)"
  by (simp add: helloBody_def length_u16 length_u8)

lemma length_encodeClientHello: "length (encodeClientHello ch) = 9 + length (helloBody ch)"
  by (simp add: encodeClientHello_def length_u16 length_u24)

lemma encodeClientHello_header:
  "encodeClientHello ch ! 0 = 0x16" "encodeClientHello ch ! 1 = 0x03"
  "encodeClientHello ch ! 2 = record_minor ch"
  "4 + length (helloBody ch) < 65536 \<Longrightarrow>
     be16 (encodeClientHello ch ! 3) (encodeClientHello ch ! 4) = 4 + length (helloBody ch)"
  by (simp_all add: encodeClientHello_def u16_def be16_u16)

lemma parse_valid_hello:
  assumes "validClientHello ch"
  shows "parseTLSClientHello (encodeClientHello ch @ trailing)
           = Inr (snd (hd (server_name_list ch)))"
proof -
  from assms obtain t S others where names: "server_name_list ch = (t, S) # others"
    by (cases "server_name_list ch") (auto simp: validClientHello_def)
  define data where "data = encodeClientHello ch @ trailing"
  define body where "body = helloBody ch"
  define exts where "exts = encodeExtensions ch"
  define sid where "sid = session_id ch"
  define cs where "cs = cipher_suites ch"
  define cm where "cm = compression_methods ch"
  define sne where "sne = serverNameExtension ((t, S) # others)"
  define P43 where "P43 = [0x16, 0x03, record_minor ch] @ u16 (4 + length body) @ [0x01]
     @ u24 (length body) @ [fst (client_version ch), snd (client_version ch)] @ random ch"
  from assms have v: "record_minor ch = 1 \<or> record_minor ch = 2 \<or> record_minor ch = 3"
      "length (random ch) = 32" "length sid \<le> 32" "length cs < 65536" "length cm < 256"
      "list_all (\<lambda>x. validExtension x \<and> fst x \<noteq> 0) (extensions_before ch)"
      "4 + length body \<le> 16384"
    by (auto simp: validClientHello_def sid_def cs_def cm_def body_def)
  have lb: "length body = 40 + length sid + length cs + length cm + length exts"
    using v(2) by (simp add: body_def length_helloBody sid_def cs_def cm_def exts_def)
  have le: "length exts = length (concat (map encodeExtension (extensions_before ch)))
      + length sne + length (concat (map encodeExtension (extensions_after ch)))"
    by (simp add: exts_def sne_def names length_encodeExtensions)
  have ls: "length sne = 9 + length S + length (concat (map encodeServerName others))"
    by (simp add: sne_def length_serverNameExtension)
  have l43: "length P43 = 43"
    using v(2) by (simp add: P43_def length_u16 length_u24)
  have ld: "length data = 9 + length body + length trailing"
    by (simp add: data_def length_encodeClientHello body_def)
  have d43: "data = P43 @ of_nat (length sid) #
      (sid @ u16 (length cs) @ cs @ u8 (length cm) @ cm @ u16 (length exts) @ exts @ trailing)"
    by (simp add: data_def encodeClientHello_def helloBody_def P43_def body_def sid_def cs_def
        cm_def exts_def u8_def)
  have dcs: "data = (P43 @ u8 (length sid) @ sid) @ u16 (length cs) @
      (cs @ u8 (length cm) @ cm @ u16 (length exts) @ exts @ trailing)"
    by (simp add: d43 u8_def)
  have dcm: "data = (P43 @ u8 (length sid) @ sid @ u16 (length cs) @ cs) @ of_nat (length cm) #
      (cm @ u16 (length exts) @ exts @ trailing)"
    by (simp add: d43 u8_def)
  have dex: "data = (P43 @ u8 (length sid) @ sid @ u16 (length cs) @ cs @ u8 (length cm) @ cm)
      @ u16 (length exts) @ (exts @ trailing)"
    by (simp add: d43 u8_def)
  define pre where "pre = P43 @ u8 (length sid) @ sid @ u16 (length cs) @ cs @ u8 (length cm) @ cm
      @ u16 (length exts)"
  have dpre: "data = pre @ concat (map encodeExtension (extensions_before ch))
      @ serverNameExtension ((t, S) # others)
      @ (concat (map encodeExtension (extensions_after ch)) @ trailing)"
    by (simp add: d43 u8_def pre_def exts_def encodeExtensions_def names)
  have lpre: "length pre = 43 + (1 + length sid) + (2 + length cs) + (1 + length cm) + 2"
    by (simp add: pre_def l43 length_u16 length_u8)
  have f1: "(length data < 5) = False" using ld by simp
  have hdr: "data ! 0 = 0x16" "data ! 1 = 0x03" "data ! 2 = record_minor ch"
      "be16 (data ! 3) (data ! 4) = 4 + length body"
    using v(7) encodeClientHello_header [of ch] length_encodeClientHello [of ch]
    by (simp_all add: data_def nth_append body_def)
  have f2: "(record_minor ch \<noteq> 0x01 \<and> record_minor ch \<noteq> 0x02 \<and> record_minor ch \<noteq> 0x03) = False"
    using v(1) by auto
  have f3: "(length data - 5 < 4 + length body) = False" using ld by simp
  have i5: "index data 5 = Inr 1"
    using ld lb by (simp add: index_def data_def nth_append encodeClientHello_def length_u16)
  have f4: "(length data < 43) = False" using ld lb by simp
  have i43: "index data 43 = Inr (of_nat (length sid))"
    by (subst d43, rule index_at) (simp add: l43)
  have us: "unat (of_nat (length sid) :: byte) = length sid"
    using v(3) by (simp add: unat_byte)
  have f5: "(length data < 43 + (1 + length sid)) = False" using ld lb by simp
  have ics: "index16 data (43 + (1 + length sid)) = Inr (length cs)"
    using v(4) by (subst dcs, intro index16_at) (simp_all add: l43 length_u8)
  have f6: "(length data < 43 + (1 + length sid) + (2 + length cs)) = False" using ld lb by simp
  have icm: "index data (43 + (1 + length sid) + (2 + length cs)) = Inr (of_nat (length cm))"
    by (subst dcm, rule index_at) (simp add: l43 length_u8 length_u16)
  have uc: "unat (of_nat (length cm) :: byte) = length cm"
    using v(5) by (simp add: unat_byte)
  have f7: "(length data < 43 + (1 + length sid) + (2 + length cs) + (1 + length cm)) = False"
    using ld lb by simp
  have iex: "index16 data (43 + (1 + length sid) + (2 + length cs) + (1 + length cm)) = Inr (length exts)"
    using v(7) lb by (subst dex, intro index16_at) (simp_all add: l43 length_u8 length_u16)
  have f8: "(length data < 43 + (1 + length sid) + (2 + length cs) + (1 + length cm) + 2 + length exts) = False"
    using ld lb by simp
  have "parseExtensions data (length pre + length exts) (length pre) = Inr S"
    unfolding dpre
  proof (rule parseExtensions_skip [OF v(6)])
    show "5 + length S + length (concat (map encodeServerName others)) < 65536"
      using v(7) lb le ls by simp
    show "length pre + length (concat (map encodeExtension (extensions_before ch)))
        + length (serverNameExtension ((t, S) # others)) \<le> length pre + length exts"
      using le by (simp add: sne_def)
  qed
  then have pe: "parseExtensions data
      (43 + (1 + length sid) + (2 + length cs) + (1 + length cm) + 2 + length exts)
      (43 + (1 + length sid) + (2 + length cs) + (1 + length cm) + 2) = Inr S"
    by (simp only: lpre)
  have "parseTLSClientHello data = Inr S"
    unfolding parseTLSClientHello_def
    by (simp only: f1 hdr f2 f3 i5 f4 i43 us f5 ics f6 icm uc f7 iex f8 pe Let_def
        if_True if_False sum.case simp_thms)
  then show ?thesis by (simp only: data_def names list.sel snd_conv)
qed

lemma parse_strict_prefix:
  assumes "validClientHello ch" and "n < length (encodeClientHello ch)"
  shows "parseTLSClientHello (take n (encodeClientHello ch)) =
         (if n < 5 then Inl DataTooShort else Inl IncompleteHandshakeRecord)"
proof (cases "n < 5")
  case True
  then show ?thesis using assms(2) by (simp add: parseTLSClientHello_def)
next
  case False
  define data where "data = take n (encodeClientHello ch)"
  from assms(1) have v: "record_minor ch = 1 \<or> record_minor ch = 2 \<or> record_minor ch = 3"
      "4 + length (helloBody ch) < 65536"
    by (auto simp: validClientHello_def)
  have ld: "length data = n" using assms(2) by (simp add: data_def)
  have f1: "(length data < 5) = False" using False ld by simp
  have hdr: "data ! 0 = 0x16" "data ! 1 = 0x03" "data ! 2 = record_minor ch"
      "be16 (data ! 3) (data ! 4) = 4 + length (helloBody ch)"
    using v(2) False encodeClientHello_header [of ch] by (simp_all add: data_def)
  have f2: "(record_minor ch \<noteq> 0x01 \<and> record_minor ch \<noteq> 0x02 \<and> record_minor ch \<noteq> 0x03) = False"
    using v(1) by auto
  have f3: "(length data - 5 < 4 + length (helloBody ch)) = True"
    using ld assms(2) False by (simp add: length_encodeClientHello)
  have "parseTLSClientHello data = Inl IncompleteHandshakeRecord"
    unfolding parseTLSClientHello_def
    by (simp only: f1 hdr f2 f3 Let_def if_True if_False simp_thms)
  then show ?thesis using False by (simp only: data_def if_False)
qed


text \<open>
  Claim C3, as the code has it.  \<open>parseTLSClientHello\<close> reads the name length at
  \<open>offset+3\<close> and the name from \<open>offset+5\<close> of the \<open>server_name\<close> extension: it
  returns the name of the first entry of the list and never reads a name type.  So for
  every valid ClientHello it returns the first name of the \<open>server_name\<close> list, also
  when further bytes follow the record; this is exactly the host name \<open>S\<close> that the
  ClientHello carries whenever the \<open>host_name\<close> entry is the first entry of the list.
  On every strict prefix of the ClientHello it returns an error and no string: "data
  too short for TLS handshake" below five bytes, "incomplete handshake record" from
  there on.
\<close>

theorem parseTLSClientHello_first_server_name:
  assumes "validClientHello ch"
  shows "parseTLSClientHello (encodeClientHello ch @ trailing)
           = Inr (snd (hd (server_name_list ch)))
         \<and> (\<forall>S. sniHostName ch = Some S \<and> fst (hd (server_name_list ch)) = 0 \<longrightarrow>
              parseTLSClientHello (encodeClientHello ch @ trailing) = Inr S)
         \<and> (\<forall>n < length (encodeClientHello ch).
              parseTLSClientHello (take n (encodeClientHello ch)) =
                (if n < 5 then Inl DataTooShort else Inl IncompleteHandshakeRecord))"
proof (intro conjI allI impI)
  show first: "parseTLSClientHello (encodeClientHello ch @ trailing)
           = Inr (snd (hd (server_name_list ch)))"
    by (rule parse_valid_hello [OF assms])
  show "parseTLSClientHello (take n (encodeClientHello ch)) =
          (if n < 5 then Inl DataTooShort else Inl IncompleteHandshakeRecord)"
    if "n < length (encodeClientHello ch)" for n
    by (rule parse_strict_prefix [OF assms that])
  show "parseTLSClientHello (encodeClientHello ch @ trailing) = Inr S"
    if h: "sniHostName ch = Some S \<and> fst (hd (server_name_list ch)) = 0" for S
  proof -
    from assms obtain t S' others where names: "server_name_list ch = (t, S') # others"
      by (cases "server_name_list ch") (auto simp: validClientHello_def)
    with h have "S' = S" by (auto simp: sniHostName_def)
    with first names show ?thesis by simp
  qed
qed

text \<open>
  The theorem at a ClientHello of 78 bytes whose \<open>server_name\<close> extension, between two
  other extensions, holds the one host name \<open>a.b\<close>: the whole record, and its first 65
  bytes, which end inside the \<open>server_name\<close> extension.
\<close>

theorem parseTLSClientHello_first_server_name_witness:
  "validClientHello helloExample
   \<and> length (encodeClientHello helloExample) = 78
   \<and> sniHostName helloExample = Some [0x61, 0x2E, 0x62]
   \<and> parseTLSClientHello (encodeClientHello helloExample) = Inr [0x61, 0x2E, 0x62]
   \<and> parseTLSClientHello (take 65 (encodeClientHello helloExample))
       = Inl IncompleteHandshakeRecord"
proof -
  have v: "validClientHello helloExample"
    by (simp add: validClientHello_def helloExample_def validExtension_def helloBody_def
        encodeExtensions_def encodeExtension_def serverNameExtension_def encodeServerName_def
        u8_def u16_def)
  have l: "length (encodeClientHello helloExample) = 78"
    by (simp add: length_encodeClientHello length_helloBody length_encodeExtensions
        length_encodeExtension length_serverNameExtension helloExample_def)
  have s: "sniHostName helloExample = Some [0x61, 0x2E, 0x62]"
    and f: "fst (hd (server_name_list helloExample)) = 0"
    and n: "snd (hd (server_name_list helloExample)) = [0x61, 0x2E, 0x62]"
    by (simp_all add: sniHostName_def helloExample_def)
  from parseTLSClientHello_first_server_name [OF v, of "[]"] l s f n
  have "parseTLSClientHello (encodeClientHello helloExample) = Inr [0x61, 0x2E, 0x62]"
    and "parseTLSClientHello (take 65 (encodeClientHello helloExample))
       = Inl IncompleteHandshakeRecord"
    by simp_all
  with v l s show ?thesis by simp
qed

text \<open>
  Claim C3 as stated fails: the valid ClientHello whose \<open>server_name\<close> list holds a
  name \<open>x\<close> of name type 1 and then the host name \<open>a.b\<close> carries the host name \<open>a.b\<close>,
  and \<open>parseTLSClientHello\<close> returns \<open>x\<close>.
\<close>

theorem parseTLSClientHello_host_name_counterexample:
  "validClientHello helloTwoNames
   \<and> sniHostName helloTwoNames = Some [0x61, 0x2E, 0x62]
   \<and> parseTLSClientHello (encodeClientHello helloTwoNames) = Inr [0x78]
   \<and> parseTLSClientHello (encodeClientHello helloTwoNames) \<noteq> Inr [0x61, 0x2E, 0x62]"
proof -
  have v: "validClientHello helloTwoNames"
    by (simp add: validClientHello_def helloTwoNames_def helloExample_def validExtension_def
        helloBody_def encodeExtensions_def encodeExtension_def serverNameExtension_def
        encodeServerName_def u8_def u16_def)
  have s: "sniHostName helloTwoNames = Some [0x61, 0x2E, 0x62]"
    by (simp add: sniHostName_def helloTwoNames_def)
  have p: "parseTLSClientHello (encodeClientHello helloTwoNames) = Inr [0x78]"
    using parse_valid_hello [OF v, of "[]"] by (simp add: helloTwoNames_def)
  from v s p show ?thesis by simp
qed

text \<open>
  Claim C10 fails on the code.  The checks \<open>len(data) < offset\<close> let \<open>offset\<close> equal
  \<open>len(data)\<close>, and the next statement reads \<open>data[offset]\<close>; the read of the inner SNI
  length at \<open>offset+3\<close> and \<open>offset+4\<close> is not checked at all.  On the 253-byte input
  whose session ID ends at the end of the data the cipher-suites length is read at
  index 253; on the 253-byte input that ends with an empty \<open>server_name\<close> extension
  the SNI length is read at index 256; on the five bytes \<open>16 03 01 00 00\<close> the
  handshake type is read at index 5.  Each read is a run-time panic.
\<close>

theorem parseTLSClientHello_panics:
  "length sessionIDToTheEnd = 253
   \<and> parseTLSClientHello sessionIDToTheEnd = Inl (PanicIndex 253 253)
   \<and> length emptyServerNameLast = 253
   \<and> parseTLSClientHello emptyServerNameLast = Inl (PanicIndex 256 253)
   \<and> parseTLSClientHello [0x16, 0x03, 0x01, 0x00, 0x00] = Inl (PanicIndex 5 5)"
proof -
  have a: "parseTLSClientHello sessionIDToTheEnd = Inl (PanicIndex 253 253)"
    by (simp add: sessionIDToTheEnd_def parseTLSClientHello_def index_def index16_def
        be16_arith nth_append)
  have b: "parseTLSClientHello emptyServerNameLast = Inl (PanicIndex 256 253)"
    by (simp add: emptyServerNameLast_def parseTLSClientHello_def index_def index16_def
        be16_arith nth_append parseExtensions.simps)
  have c: "parseTLSClientHello [0x16, 0x03, 0x01, 0x00, 0x00] = Inl (PanicIndex 5 5)"
    by (simp add: parseTLSClientHello_def index_def be16_arith)
  show ?thesis
    by (simp add: a b c) (simp add: sessionIDToTheEnd_def emptyServerNameLast_def)
qed

text \<open>The shortest of the three inputs, read off the theorem.\<close>

theorem parseTLSClientHello_panics_witness:
  "length [0x16, 0x03, 0x01, 0x00, 0x00 :: byte] = 5
   \<and> parseTLSClientHello [0x16, 0x03, 0x01, 0x00, 0x00] = Inl (PanicIndex 5 5)"
  using parseTLSClientHello_panics by simp

section \<open>Properties of the L7 forwarder\<close>

lemma w_status_http_Error:
  "w_status w = None \<Longrightarrow> w_status (http_Error w msg code) = Some code"
  by (simp add: http_Error_def Write_def WriteHeader_def)



lemma handleHTTPRequest_hit:
  "getFromCache config (cacheKey net r) = Some cached \<Longrightarrow>
   handleHTTPRequest rng net w r config =
     \<lparr>writer = Write w cached, upstream = [], after = config, panic = None\<rparr>"
  by (simp add: handleHTTPRequest_def Let_def)


text \<open>
  Claim C4, as the code has it.  The cache key is the request's \<open>Host\<close>, a colon and
  \<open>r.URL.String()\<close>; the method is not part of it.  Two requests with the same \<open>Host\<close>
  and the same URL have the same key whatever their methods, and a response stored for
  one of them is the cache entry found for the other.
\<close>

theorem cacheKey_ignores_method:
  assumes "Host r' = Host r" and "URL r' = URL r"
  shows "cacheKey net r' = cacheKey net r
         \<and> getFromCache (storeInCache config (cacheKey net r) body) (cacheKey net r') = Some body"
  using assms by (simp add: cacheKey_def getFromCache_def storeInCache_def Load_Store_same)


text \<open>The theorem at \<open>GET /x\<close> and \<open>POST /x\<close> for the host \<open>api.test\<close>.\<close>

theorem cacheKey_ignores_method_witness:
  "Host postX = Host getX \<and> URL postX = URL getX \<and> Method postX \<noteq> Method getX
   \<and> cacheKey exampleNet postX = cacheKey exampleNet getX
   \<and> getFromCache (storeInCache apiConfig (cacheKey exampleNet getX) ''v1'')
        (cacheKey exampleNet postX) = Some ''v1''"
proof -
  have h: "Host postX = Host getX" and u: "URL postX = URL getX"
    and m: "Method postX \<noteq> Method getX"
    by (simp_all add: postX_def getX_def)
  from cacheKey_ignores_method [OF h u, of exampleNet apiConfig "''v1''"] h u m
  show ?thesis by blast
qed

text \<open>
  Claim C4 as stated fails: \<open>GET /x\<close> and \<open>POST /x\<close> for the host \<open>api.test\<close> have the
  one cache key \<open>api.test:/x\<close>, and after the \<open>GET\<close> has been forwarded and cached, the
  \<open>POST\<close> is answered with the body recorded for the \<open>GET\<close> and reaches no backend.
\<close>

theorem cacheKey_method_counterexample:
  "Method getX = ''GET'' \<and> Method postX = ''POST''
   \<and> cacheKey exampleNet getX = ''api.test:/x''
   \<and> cacheKey exampleNet postX = ''api.test:/x''
   \<and> w_body (writer (handleHTTPRequest asInserted exampleNet freshWriter postX
        (after (handleHTTPRequest asInserted exampleNet freshWriter getX apiConfig)))) = ''v1''
   \<and> upstream (handleHTTPRequest asInserted exampleNet freshWriter postX
        (after (handleHTTPRequest asInserted exampleNet freshWriter getX apiConfig))) = []"
proof -
  have a: "after (handleHTTPRequest asInserted exampleNet freshWriter getX apiConfig) =
      \<lparr>Backends = [(''api.test'', [(''http://127.0.0.1:9100'', True)])],
       BackendIndices = [(''api.test'', 0)], Cache = [(''api.test:/x'', ''v1'')],
       TLSCertFile = ''cert.pem'', TLSKeyFile = ''key.pem''\<rparr>"
    by (simp add: handleHTTPRequest_def exampleNet_def getX_def apiConfig_def addBackend_def
        emptyL7Config_def LoadOrStore_def Load_def getNextBackend_def RangeKeys_def
        getFromCache_def cacheKey_def storeInCache_def Let_def)
  show ?thesis
    unfolding a
    by (simp add: handleHTTPRequest_def exampleNet_def getX_def postX_def freshWriter_def
        Load_def getFromCache_def cacheKey_def Let_def Write_def WriteHeader_def)
qed

text \<open>
  Claim C5.  When a first request missed the cache, found a backend, was sent to it
  and had the response body \<open>body\<close> read in full, a second request with the same
  \<open>Host\<close>, method and URL is answered from the cache: the handler writes \<open>body\<close>
  unchanged (with status 200 on a fresh writer), issues no request to any backend, and
  leaves the configuration as it found it, so \<open>getNextBackend\<close> has not run.
\<close>

theorem handleHTTPRequest_cache_idempotence:
  assumes miss: "getFromCache config (cacheKey net r) = None"
    and backend: "getNextBackend rng config (Host r) = (Inr backendURL, config1)"
    and created: "\<not> NewRequest_error net (Method r) (backendURL @ Path (URL r))"
    and answered: "client_Do net \<lparr>u_Method = Method r, u_URL = backendURL @ Path (URL r),
                      u_Header = Header r, u_Body = Body r\<rparr> = Inr resp"
    and read: "resp_Body resp = Inr body"
    and same: "Host r' = Host r" "Method r' = Method r" "URL r' = URL r"
  shows "handleHTTPRequest rng net w' r' (after (handleHTTPRequest rng net w r config)) =
           \<lparr>writer = Write w' body, upstream = [],
            after = after (handleHTTPRequest rng net w r config), panic = None\<rparr>
         \<and> (w_status w' = None \<longrightarrow> w_status (Write w' body) = Some 200)
         \<and> w_body (Write w' body) = w_body w' @ body"
proof -
  have h: "after (handleHTTPRequest rng net w r config) = storeInCache config1 (cacheKey net r) body"
    using miss backend created answered read by (simp add: handleHTTPRequest_def Let_def)
  have k: "cacheKey net r' = cacheKey net r"
    using same by (simp add: cacheKey_def)
  have hit: "getFromCache (storeInCache config1 (cacheKey net r) body) (cacheKey net r') = Some body"
    by (simp add: k getFromCache_def storeInCache_def Load_Store_same)
  have "handleHTTPRequest rng net w' r' (storeInCache config1 (cacheKey net r) body) =
      \<lparr>writer = Write w' body, upstream = [],
       after = storeInCache config1 (cacheKey net r) body, panic = None\<rparr>"
    by (rule handleHTTPRequest_hit [OF hit])
  then show ?thesis
    by (simp add: h Write_def WriteHeader_def)
qed


text \<open>The theorem at two requests \<open>GET /x\<close> for \<open>api.test\<close>, whose backend answers \<open>v1\<close>.\<close>

theorem handleHTTPRequest_cache_idempotence_witness:
  "getFromCache apiConfig (cacheKey exampleNet getX) = None
   \<and> w_body (writer (handleHTTPRequest asInserted exampleNet freshWriter getX
        (after (handleHTTPRequest asInserted exampleNet freshWriter getX apiConfig)))) = ''v1''
   \<and> w_status (writer (handleHTTPRequest asInserted exampleNet freshWriter getX
        (after (handleHTTPRequest asInserted exampleNet freshWriter getX apiConfig)))) = Some 200
   \<and> upstream (handleHTTPRequest asInserted exampleNet freshWriter getX
        (after (handleHTTPRequest asInserted exampleNet freshWriter getX apiConfig))) = []"
proof -
  let ?config1 = "apiConfig\<lparr>BackendIndices := [(''api.test'', 0)]\<rparr>"
  let ?resp = "\<lparr>StatusCode = 200, resp_Header = Map.empty, resp_Body = Inr ''v1''\<rparr>"
  have miss: "getFromCache apiConfig (cacheKey exampleNet getX) = None"
    by (simp add: getFromCache_def apiConfig_def addBackend_def emptyL7Config_def
        LoadOrStore_def Load_def)
  have backend: "getNextBackend asInserted apiConfig (Host getX)
      = (Inr ''http://127.0.0.1:9100'', ?config1)"
    by (simp add: getNextBackend_def apiConfig_def addBackend_def emptyL7Config_def
        LoadOrStore_def Load_def RangeKeys_def getX_def)
  have created: "\<not> NewRequest_error exampleNet (Method getX)
      (''http://127.0.0.1:9100'' @ Path (URL getX))"
    by (simp add: exampleNet_def)
  have answered: "client_Do exampleNet \<lparr>u_Method = Method getX,
      u_URL = ''http://127.0.0.1:9100'' @ Path (URL getX),
      u_Header = Header getX, u_Body = Body getX\<rparr> = Inr ?resp"
    by (simp add: exampleNet_def)
  have read: "resp_Body ?resp = Inr ''v1''"
    by simp
  from handleHTTPRequest_cache_idempotence
    [OF miss backend created answered read refl refl refl, of freshWriter freshWriter]
  have "w_body (writer (handleHTTPRequest asInserted exampleNet freshWriter getX
        (after (handleHTTPRequest asInserted exampleNet freshWriter getX apiConfig)))) = ''v1''"
    and "w_status (writer (handleHTTPRequest asInserted exampleNet freshWriter getX
        (after (handleHTTPRequest asInserted exampleNet freshWriter getX apiConfig)))) = Some 200"
    and "upstream (handleHTTPRequest asInserted exampleNet freshWriter getX
        (after (handleHTTPRequest asInserted exampleNet freshWriter getX apiConfig))) = []"
    by (simp_all add: freshWriter_def)
  with miss show ?thesis by simp
qed

text \<open>
  Claim C6 fails on the code.  The upstream request is built from \<open>backendURL +
  r.URL.Path\<close>, so the query string of the client's request is not sent, although the
  cache key of the same request is built from \<open>r.URL.String()\<close>, which has it.  For
  \<open>GET /x?y=1\<close> the handler stores its answer under \<open>api.test:/x?y=1\<close> and asks the
  backend for \<open>http://127.0.0.1:9100/x\<close>.
\<close>

theorem handleHTTPRequest_drops_query:
  "url_String exampleNet (URL getXQuery) = ''/x?y=1''
   \<and> cacheKey exampleNet getXQuery = ''api.test:/x?y=1''
   \<and> map u_URL (upstream (handleHTTPRequest asInserted exampleNet freshWriter getXQuery apiConfig))
       = [''http://127.0.0.1:9100/x'']
   \<and> map u_Method (upstream (handleHTTPRequest asInserted exampleNet freshWriter getXQuery apiConfig))
       = [''GET'']"
  by (simp add: handleHTTPRequest_def exampleNet_def getXQuery_def getX_def apiConfig_def
      addBackend_def emptyL7Config_def LoadOrStore_def Load_def getNextBackend_def
      RangeKeys_def getFromCache_def cacheKey_def Let_def)




section \<open>Properties of the control plane\<close>

lemma flatObject_emptyNameBody:
  "flatObject BeginValue [] emptyNameBody
     = Members [(''name'', []), (''address'', ''1.2.3.4:80'')] []"
  by (simp add: emptyNameBody_def jsonSpace_def plainChar_def)

lemma flatObject_goodBody:
  "flatObject BeginValue [] goodBody
     = Members [(''name'', ''svc.test''), (''address'', ''127.0.0.1:9001'')] []"
  by (simp add: goodBody_def jsonSpace_def plainChar_def)

lemma flatObject_trailingBytesBody:
  "flatObject BeginValue [] trailingBytesBody
     = Members [(''name'', ''t''), (''address'', ''u'')] '' xyz''"
  by (simp add: trailingBytesBody_def jsonSpace_def plainChar_def)

lemma flatObject_truncatedBody: "flatObject BeginValue [] truncatedBody = Malformed"
  by (simp add: truncatedBody_def jsonSpace_def plainChar_def)

lemma fieldOf_name_address:
  "fieldOf ''name'' [(''name'', a), (''address'', b)] = a"
  "fieldOf ''address'' [(''name'', a), (''address'', b)] = b"
  by (simp_all add: fieldOf_def keySelects_def foldEq_def)

text \<open>
  Claim C8, as the code has it.  With a fresh response writer, each of the two
  registration handlers answers 405 to every request whose method is not \<open>POST\<close>; 400
  to a \<open>POST\<close> on whose body \<open>Decode\<close> returns an error; 400 to a \<open>POST\<close> whose decoded
  selector or backend is empty; and 200 with a plain-text confirmation to a \<open>POST\<close>
  whose decoded fields are both non-empty.  In the 200 case the configuration becomes
  the result of \<open>addBackend\<close>; in every other case it is unchanged.  \<open>Decode\<close> reads
  one JSON value and not the bytes after it: a body that begins with an object giving
  both fields is answered 200 and registered whatever follows the closing brace.
\<close>

theorem registration_handler_decode_statuses:
  assumes "w_status w = None"
  shows "(Method r \<noteq> ''POST'' \<longrightarrow>
            w_status (fst (registerHandler decode w r config)) = Some 405
            \<and> snd (registerHandler decode w r config) = config
            \<and> w_status (fst (registerBackendHandler decode w r config)) = Some 405
            \<and> snd (registerBackendHandler decode w r config) = config)
       \<and> (Method r = ''POST'' \<and> decode (Body r) = None \<longrightarrow>
            w_status (fst (registerHandler decode w r config)) = Some 400
            \<and> snd (registerHandler decode w r config) = config
            \<and> w_status (fst (registerBackendHandler decode w r config)) = Some 400
            \<and> snd (registerBackendHandler decode w r config) = config)
       \<and> (\<forall>a b. Method r = ''POST'' \<and> decode (Body r) = Some (a, b) \<and> (a = [] \<or> b = []) \<longrightarrow>
            w_status (fst (registerHandler decode w r config)) = Some 400
            \<and> snd (registerHandler decode w r config) = config
            \<and> w_status (fst (registerBackendHandler decode w r config)) = Some 400
            \<and> snd (registerBackendHandler decode w r config) = config)
       \<and> (\<forall>a b. Method r = ''POST'' \<and> decode (Body r) = Some (a, b) \<and> a \<noteq> [] \<and> b \<noteq> [] \<longrightarrow>
            w_status (fst (registerHandler decode w r config)) = Some 200
            \<and> w_body (fst (registerHandler decode w r config))
                = w_body w @ ''Backend '' @ a @ '' registered successfully''
            \<and> snd (registerHandler decode w r config) = addBackend config a b
            \<and> w_status (fst (registerBackendHandler decode w r config)) = Some 200
            \<and> w_body (fst (registerBackendHandler decode w r config))
                = w_body w @ ''Backend '' @ b @ '' registered successfully for host '' @ a
            \<and> snd (registerBackendHandler decode w r config) = addBackend config a b)
       \<and> (\<forall>ms rest otherwise.
            Method r = ''POST'' \<and> flatObject BeginValue [] (Body r) = Members ms rest
            \<and> fieldOf ''name'' ms \<noteq> [] \<and> fieldOf ''address'' ms \<noteq> [] \<longrightarrow>
            w_status (fst (registerHandler (jsonDecode ''name'' ''address'' otherwise) w r config))
              = Some 200
            \<and> snd (registerHandler (jsonDecode ''name'' ''address'' otherwise) w r config)
                = addBackend config (fieldOf ''name'' ms) (fieldOf ''address'' ms))
       \<and> (\<forall>ms rest otherwise.
            Method r = ''POST'' \<and> flatObject BeginValue [] (Body r) = Members ms rest
            \<and> fieldOf ''host'' ms \<noteq> [] \<and> fieldOf ''backend'' ms \<noteq> [] \<longrightarrow>
            w_status (fst (registerBackendHandler (jsonDecode ''host'' ''backend'' otherwise)
                             w r config))
              = Some 200
            \<and> snd (registerBackendHandler (jsonDecode ''host'' ''backend'' otherwise) w r config)
                = addBackend config (fieldOf ''host'' ms) (fieldOf ''backend'' ms))
       \<and> (\<forall>otherwise.
            Method r = ''POST'' \<and> flatObject BeginValue [] (Body r) = Malformed \<longrightarrow>
            w_status (fst (registerHandler (jsonDecode ''name'' ''address'' otherwise) w r config))
              = Some 400
            \<and> snd (registerHandler (jsonDecode ''name'' ''address'' otherwise) w r config) = config
            \<and> w_status (fst (registerBackendHandler (jsonDecode ''host'' ''backend'' otherwise)
                             w r config))
              = Some 400
            \<and> snd (registerBackendHandler (jsonDecode ''host'' ''backend'' otherwise) w r config)
                = config)"
proof -
  have general: "\<And>decode.
       (Method r \<noteq> ''POST'' \<longrightarrow>
            w_status (fst (registerHandler decode w r config)) = Some 405
            \<and> snd (registerHandler decode w r config) = config
            \<and> w_status (fst (registerBackendHandler decode w r config)) = Some 405
            \<and> snd (registerBackendHandler decode w r config) = config)
       \<and> (Method r = ''POST'' \<and> decode (Body r) = None \<longrightarrow>
            w_status (fst (registerHandler decode w r config)) = Some 400
            \<and> snd (registerHandler decode w r config) = config
            \<and> w_status (fst (registerBackendHandler decode w r config)) = Some 400
            \<and> snd (registerBackendHandler decode w r config) = config)
       \<and> (\<forall>a b. Method r = ''POST'' \<and> decode (Body r) = Some (a, b) \<and> (a = [] \<or> b = []) \<longrightarrow>
            w_status (fst (registerHandler decode w r config)) = Some 400
            \<and> snd (registerHandler decode w r config) = config
            \<and> w_status (fst (registerBackendHandler decode w r config)) = Some 400
            \<and> snd (registerBackendHandler decode w r config) = config)
       \<and> (\<forall>a b. Method r = ''POST'' \<and> decode (Body r) = Some (a, b) \<and> a \<noteq> [] \<and> b \<noteq> [] \<longrightarrow>
            w_status (fst (registerHandler decode w r config)) = Some 200
            \<and> w_body (fst (registerHandler decode w r config))
                = w_body w @ ''Backend '' @ a @ '' registered successfully''
            \<and> snd (registerHandler decode w r config) = addBackend config a b
            \<and> w_status (fst (registerBackendHandler decode w r config)) = Some 200
            \<and> w_body (fst (registerBackendHandler decode w r config))
                = w_body w @ ''Backend '' @ b @ '' registered successfully for host '' @ a
            \<and> snd (registerBackendHandler decode w r config) = addBackend config a b)"
    using assms
    by (auto simp: registerHandler_def registerBackendHandler_def w_status_http_Error
          Write_def WriteHeader_def)
  have l4: "w_status (fst (registerHandler (jsonDecode ''name'' ''address'' otherwise) w r config))
              = Some 200
            \<and> snd (registerHandler (jsonDecode ''name'' ''address'' otherwise) w r config)
                = addBackend config (fieldOf ''name'' ms) (fieldOf ''address'' ms)"
    if "Method r = ''POST'' \<and> flatObject BeginValue [] (Body r) = Members ms rest
        \<and> fieldOf ''name'' ms \<noteq> [] \<and> fieldOf ''address'' ms \<noteq> []"
    for ms rest otherwise
    using that assms
    by (simp add: registerHandler_def jsonDecode_def Write_def WriteHeader_def)
  have l7: "w_status (fst (registerBackendHandler (jsonDecode ''host'' ''backend'' otherwise)
                             w r config))
              = Some 200
            \<and> snd (registerBackendHandler (jsonDecode ''host'' ''backend'' otherwise) w r config)
                = addBackend config (fieldOf ''host'' ms) (fieldOf ''backend'' ms)"
    if "Method r = ''POST'' \<and> flatObject BeginValue [] (Body r) = Members ms rest
        \<and> fieldOf ''host'' ms \<noteq> [] \<and> fieldOf ''backend'' ms \<noteq> []"
    for ms rest otherwise
    using that assms
    by (simp add: registerBackendHandler_def jsonDecode_def Write_def WriteHeader_def)
  have bad: "w_status (fst (registerHandler (jsonDecode ''name'' ''address'' otherwise) w r config))
              = Some 400
            \<and> snd (registerHandler (jsonDecode ''name'' ''address'' otherwise) w r config) = config
            \<and> w_status (fst (registerBackendHandler (jsonDecode ''host'' ''backend'' otherwise)
                             w r config))
              = Some 400
            \<and> snd (registerBackendHandler (jsonDecode ''host'' ''backend'' otherwise) w r config)
                = config"
    if "Method r = ''POST'' \<and> flatObject BeginValue [] (Body r) = Malformed" for otherwise
    using that assms
    by (simp add: registerHandler_def registerBackendHandler_def jsonDecode_def
        w_status_http_Error)
  from general [of decode] l4 l7 bad show ?thesis by blast
qed

text \<open>
  The theorem at the \<open>/register\<close> handler with the empty L4 configuration: a \<open>GET\<close> is
  answered 405, a \<open>POST\<close> of a body with an empty name 400, a \<open>POST\<close> of a body that
  breaks off inside the name 400, and a \<open>POST\<close> of a body with both fields 200, after
  which the backend is registered.
\<close>

theorem registration_handler_decode_statuses_witness:
  "w_status freshWriter = None
   \<and> w_status (fst (registerHandler exampleDecode freshWriter getX emptyL4Config)) = Some 405
   \<and> snd (registerHandler exampleDecode freshWriter getX emptyL4Config) = emptyL4Config
   \<and> w_status (fst (registerHandler exampleDecode freshWriter
        (postX\<lparr>Body := emptyNameBody\<rparr>) emptyL4Config)) = Some 400
   \<and> snd (registerHandler exampleDecode freshWriter
        (postX\<lparr>Body := emptyNameBody\<rparr>) emptyL4Config) = emptyL4Config
   \<and> w_status (fst (registerHandler exampleDecode freshWriter
        (postX\<lparr>Body := goodBody\<rparr>) emptyL4Config)) = Some 200
   \<and> Load ''svc.test'' (Backends (snd (registerHandler exampleDecode freshWriter
        (postX\<lparr>Body := goodBody\<rparr>) emptyL4Config))) = Some [(''127.0.0.1:9001'', True)]
   \<and> flatObject BeginValue [] truncatedBody = Malformed
   \<and> w_status (fst (registerHandler exampleDecode freshWriter
        (postX\<lparr>Body := truncatedBody\<rparr>) emptyL4Config)) = Some 400
   \<and> snd (registerHandler exampleDecode freshWriter
        (postX\<lparr>Body := truncatedBody\<rparr>) emptyL4Config) = emptyL4Config"
proof -
  have fresh: "w_status freshWriter = None"
    by (simp add: freshWriter_def)
  have g: "Method getX \<noteq> ''POST''"
    by (simp add: getX_def)
  have p: "Method (postX\<lparr>Body := emptyNameBody\<rparr>) = ''POST''"
      "Method (postX\<lparr>Body := goodBody\<rparr>) = ''POST''"
    by (simp_all add: postX_def)
  have e: "exampleDecode (Body (postX\<lparr>Body := emptyNameBody\<rparr>)) = Some ([], ''1.2.3.4:80'')"
    by (simp add: exampleDecode_def jsonDecode_def flatObject_emptyNameBody fieldOf_name_address)
  have d: "exampleDecode (Body (postX\<lparr>Body := goodBody\<rparr>))
      = Some (''svc.test'', ''127.0.0.1:9001'')"
    by (simp add: exampleDecode_def jsonDecode_def flatObject_goodBody fieldOf_name_address)
  have r: "Load ''svc.test'' (Backends (addBackend emptyL4Config ''svc.test'' ''127.0.0.1:9001''))
      = Some [(''127.0.0.1:9001'', True)]"
    by (simp add: addBackend_def emptyL4Config_def LoadOrStore_def Load_def)
  from registration_handler_decode_statuses [OF fresh, of getX exampleDecode emptyL4Config] g
  have a: "w_status (fst (registerHandler exampleDecode freshWriter getX emptyL4Config)) = Some 405"
    and a': "snd (registerHandler exampleDecode freshWriter getX emptyL4Config) = emptyL4Config"
    by blast+
  from registration_handler_decode_statuses
    [OF fresh, of "postX\<lparr>Body := emptyNameBody\<rparr>" exampleDecode emptyL4Config] p(1) e
  have b: "w_status (fst (registerHandler exampleDecode freshWriter
        (postX\<lparr>Body := emptyNameBody\<rparr>) emptyL4Config)) = Some 400"
    and b': "snd (registerHandler exampleDecode freshWriter
        (postX\<lparr>Body := emptyNameBody\<rparr>) emptyL4Config) = emptyL4Config"
    by blast+
  from registration_handler_decode_statuses
    [OF fresh, of "postX\<lparr>Body := goodBody\<rparr>" exampleDecode emptyL4Config] p(2) d
  have c: "w_status (fst (registerHandler exampleDecode freshWriter
        (postX\<lparr>Body := goodBody\<rparr>) emptyL4Config)) = Some 200"
    and c': "snd (registerHandler exampleDecode freshWriter
        (postX\<lparr>Body := goodBody\<rparr>) emptyL4Config)
        = addBackend emptyL4Config ''svc.test'' ''127.0.0.1:9001''"
    by blast+
  have pt: "Method (postX\<lparr>Body := truncatedBody\<rparr>) = ''POST''"
    by (simp add: postX_def)
  have m: "flatObject BeginValue [] (Body (postX\<lparr>Body := truncatedBody\<rparr>)) = Malformed"
    by (simp add: flatObject_truncatedBody)
  from registration_handler_decode_statuses
    [OF fresh, of "postX\<lparr>Body := truncatedBody\<rparr>" exampleDecode emptyL4Config] pt m
  have t: "w_status (fst (registerHandler exampleDecode freshWriter
        (postX\<lparr>Body := truncatedBody\<rparr>) emptyL4Config)) = Some 400"
    and t': "snd (registerHandler exampleDecode freshWriter
        (postX\<lparr>Body := truncatedBody\<rparr>) emptyL4Config) = emptyL4Config"
    unfolding exampleDecode_def by blast+
  from fresh a a' b b' c c' r t t' show ?thesis
    by (simp add: flatObject_truncatedBody)
qed

text \<open>
  Claim C8 as stated fails: the body \<open>{"name":"t","address":"u"} xyz\<close> is not a JSON
  text, since bytes that are not white space follow the closing brace of its value;
  \<open>Decode\<close> reads the value and stops, and the \<open>/register\<close> handler answers the \<open>POST\<close>
  with 200 and registers the backend \<open>u\<close> for \<open>t\<close>.
\<close>

theorem registration_handler_malformed_counterexample:
  "flatObject BeginValue [] trailingBytesBody
     = Members [(''name'', ''t''), (''address'', ''u'')] '' xyz''
   \<and> \<not> list_all jsonSpace '' xyz''
   \<and> Method (postX\<lparr>Body := trailingBytesBody\<rparr>) = ''POST''
   \<and> w_status (fst (registerHandler exampleDecode freshWriter
        (postX\<lparr>Body := trailingBytesBody\<rparr>) emptyL4Config)) = Some 200
   \<and> w_body (fst (registerHandler exampleDecode freshWriter
        (postX\<lparr>Body := trailingBytesBody\<rparr>) emptyL4Config)) = ''Backend t registered successfully''
   \<and> Load ''t'' (Backends (snd (registerHandler exampleDecode freshWriter
        (postX\<lparr>Body := trailingBytesBody\<rparr>) emptyL4Config))) = Some [(''u'', True)]"
proof -
  have d: "exampleDecode trailingBytesBody = Some (''t'', ''u'')"
    by (simp add: exampleDecode_def jsonDecode_def flatObject_trailingBytesBody
        fieldOf_name_address)
  have r: "Load ''t'' (Backends (addBackend emptyL4Config ''t'' ''u'')) = Some [(''u'', True)]"
    by (simp add: addBackend_def emptyL4Config_def LoadOrStore_def Load_def)
  show ?thesis
    by (simp add: flatObject_trailingBytesBody jsonSpace_def registerHandler_def postX_def d r
        freshWriter_def Write_def WriteHeader_def)
qed

end
